theory Spec2Isabelle
  imports Main "HOL-Library.Log_Nat"
begin

section \<open>Python values used by \<open>dev_sdk/read_h5.py\<close>\<close>

text \<open>
  Exceptions are values. Each constructor is a Python exception class, and it carries
  the message the interpreter (or the source) attaches to it.
\<close>

datatype py_error =
    ValueError string
  | OverflowError string
  | IndexError string
  | KeyError string
  | OSError string
  | Exception string

text \<open>
  A Python \<open>float\<close> is an IEEE 754 binary64 value. A finite value is kept as the exact
  rational it denotes; the negative zero, the two infinities and NaN are separate
  constructors, so \<open>Fin 0\<close> is \<open>+0.0\<close> and \<open>NegZero\<close> is \<open>-0.0\<close>.
\<close>

datatype pyfloat = Fin rat | NegZero | PInf | NInf | NaN

text \<open>
  \<open>round\<close> of a float with no second argument: to the nearest integer, a tie going to
  the even neighbour.
\<close>

definition py_round :: "rat \<Rightarrow> int" where
  "py_round q =
     (let f = \<lfloor>q\<rfloor>; d = q - of_int f
      in if d < 1 / 2 then f
         else if 1 / 2 < d then f + 1
         else if even f then f else f + 1)"

text \<open>The exponent of the leading bit of a positive rational: \<open>\<lfloor>log\<^sub>2 q\<rfloor>\<close>.\<close>

definition ilog2 :: "rat \<Rightarrow> int" where
  "ilog2 q =
     (if 1 \<le> q then int (floorlog 2 (nat \<lfloor>q\<rfloor>)) - 1
      else - int (floorlog 2 (nat (\<lceil>1 / q\<rceil> - 1))))"

text \<open>
  Rounding a non-negative magnitude to binary64, to nearest with ties to even: 53
  significant bits, the least exponent of a unit in the last place being \<open>-1074\<close>
  (subnormal numbers). \<open>None\<close> is overflow: the rounded value would reach \<open>2^1024\<close>.
\<close>

definition round_mag :: "rat \<Rightarrow> rat option" where
  "round_mag q =
     (if q \<le> 0 then Some 0
      else let e = max (ilog2 q - 52) (- 1074);
               r = of_int (py_round (q / 2 powi e)) * 2 powi e
           in if 2 ^ 1024 \<le> r then None else Some r)"

definition max_double :: rat where
  "max_double = (2 ^ 53 - 1) * 2 ^ 971"

definition is_double :: "rat \<Rightarrow> bool" where
  "is_double q \<longleftrightarrow> 0 \<le> q \<and> round_mag q = Some q"

fun wf_float :: "pyfloat \<Rightarrow> bool" where
  "wf_float (Fin q) = is_double \<bar>q\<bar>"
| "wf_float _ = True"

fun is_finite :: "pyfloat \<Rightarrow> bool" where
  "is_finite (Fin q) = True"
| "is_finite NegZero = True"
| "is_finite _ = False"

fun sign_bit_of :: "pyfloat \<Rightarrow> bool" where
  "sign_bit_of (Fin q) = (q < 0)"
| "sign_bit_of NegZero = True"
| "sign_bit_of NInf = True"
| "sign_bit_of _ = False"

fun mag_of :: "pyfloat \<Rightarrow> rat" where
  "mag_of (Fin q) = \<bar>q\<bar>"
| "mag_of _ = 0"

fun is_zero :: "pyfloat \<Rightarrow> bool" where
  "is_zero (Fin q) = (q = 0)"
| "is_zero NegZero = True"
| "is_zero _ = False"

fun is_inf :: "pyfloat \<Rightarrow> bool" where
  "is_inf PInf = True"
| "is_inf NInf = True"
| "is_inf _ = False"

definition mk_float :: "bool \<Rightarrow> rat option \<Rightarrow> pyfloat" where
  "mk_float neg r =
     (case r of
        None \<Rightarrow> if neg then NInf else PInf
      | Some m \<Rightarrow> if m = 0 then (if neg then NegZero else Fin 0)
                  else Fin (if neg then - m else m))"

text \<open>\<open>x < 0\<close> for a float \<open>x\<close>: false for both zeros and for NaN.\<close>

fun float_lt_zero :: "pyfloat \<Rightarrow> bool" where
  "float_lt_zero (Fin q) = (q < 0)"
| "float_lt_zero NInf = True"
| "float_lt_zero _ = False"

text \<open>\<open>abs(x)\<close> clears the sign bit.\<close>

fun float_abs :: "pyfloat \<Rightarrow> pyfloat" where
  "float_abs (Fin q) = Fin \<bar>q\<bar>"
| "float_abs NegZero = Fin 0"
| "float_abs PInf = PInf"
| "float_abs NInf = PInf"
| "float_abs NaN = NaN"

text \<open>The IEEE product of two floats.\<close>

definition float_mul :: "pyfloat \<Rightarrow> pyfloat \<Rightarrow> pyfloat" where
  "float_mul x y =
     (if x = NaN \<or> y = NaN then NaN
      else if (is_inf x \<and> is_zero y) \<or> (is_zero x \<and> is_inf y) then NaN
      else if is_inf x \<or> is_inf y then mk_float (sign_bit_of x \<noteq> sign_bit_of y) None
      else mk_float (sign_bit_of x \<noteq> sign_bit_of y) (round_mag (mag_of x * mag_of y)))"

text \<open>
  The conversion of an \<open>int\<close> operand to a float, as the interpreter does it before a
  mixed \<open>float * int\<close>: correctly rounded, and an exception when the integer is beyond
  the range of a float.
\<close>

definition int_to_float :: "int \<Rightarrow> py_error + pyfloat" where
  "int_to_float n =
     (case round_mag (of_int \<bar>n\<bar>) of
        None \<Rightarrow> Inl (OverflowError ''int too large to convert to float'')
      | Some m \<Rightarrow> Inr (Fin (if n < 0 then - m else m)))"

text \<open>\<open>round(x)\<close> of a float gives an \<open>int\<close> and raises on NaN and on the infinities.\<close>

fun round_float :: "pyfloat \<Rightarrow> py_error + int" where
  "round_float (Fin q) = Inr (py_round q)"
| "round_float NegZero = Inr 0"
| "round_float PInf = Inl (OverflowError ''cannot convert float infinity to integer'')"
| "round_float NInf = Inl (OverflowError ''cannot convert float infinity to integer'')"
| "round_float NaN = Inl (ValueError ''cannot convert float NaN to integer'')"

text \<open>
  \<open>10 ** scale\<close> is an \<open>int\<close> when \<open>scale\<close> is not negative and a float otherwise. For
  a negative exponent both operands are first converted to floats and the power is
  computed by the platform's \<open>pow\<close>, taken here as correctly rounded (a result too
  small for a float is \<open>0.0\<close>).
\<close>

datatype pynum = PyInt int | PyFloat pyfloat

definition pow10 :: "int \<Rightarrow> py_error + pynum" where
  "pow10 scale =
     (if 0 \<le> scale then Inr (PyInt (10 ^ nat scale))
      else case int_to_float scale of
             Inl e \<Rightarrow> Inl e
           | Inr _ \<Rightarrow> Inr (PyFloat (mk_float False (round_mag (1 / 10 ^ nat (- scale))))))"

text \<open>\<open>x * factor\<close> with a float on the left.\<close>

fun float_times :: "pyfloat \<Rightarrow> pynum \<Rightarrow> py_error + pyfloat" where
  "float_times x (PyFloat y) = Inr (float_mul x y)"
| "float_times x (PyInt n) =
     (case int_to_float n of Inl e \<Rightarrow> Inl e | Inr y \<Rightarrow> Inr (float_mul x y))"

section \<open>The fixed-point codec\<close>

text \<open>
  \<^verbatim>\<open>
  def float_to_fixed(x: float, scale: int) -> Tuple[int, int]:
      sign_bit = 1 if x < 0 else 0
      x = abs(x)
      factor = 10 ** scale
      abs_val = round(x * factor)
      return sign_bit, abs_val
  \<close>
\<close>

definition float_to_fixed :: "pyfloat \<Rightarrow> int \<Rightarrow> py_error + (int \<times> int)" where
  "float_to_fixed x scale =
     (let sign_bit = (if float_lt_zero x then 1 else 0);
          x' = float_abs x
      in case pow10 scale of
           Inl e \<Rightarrow> Inl e
         | Inr factor \<Rightarrow>
             (case float_times x' factor of
                Inl e \<Rightarrow> Inl e
              | Inr p \<Rightarrow>
                  (case round_float p of
                     Inl e \<Rightarrow> Inl e
                   | Inr abs_val \<Rightarrow> Inr (sign_bit, abs_val))))"

section \<open>Arrays, layers and the dictionaries of the pipeline\<close>

text \<open>
  A NumPy array is its shape and its elements in row-major (C) order, which is the
  order \<open>flatten()\<close> returns them in. In an array of shape \<open>[rows, cols]\<close> the element
  at row \<open>i\<close> and column \<open>j\<close> is the one at position \<open>i * cols + j\<close>.
\<close>

record ndarray =
  nd_shape :: "nat list"
  nd_items :: "pyfloat list"

definition flatten :: "ndarray \<Rightarrow> pyfloat list" where
  "flatten a = nd_items a"

definition wf_ndarray :: "ndarray \<Rightarrow> bool" where
  "wf_ndarray a \<longleftrightarrow> length (nd_items a) = prod_list (nd_shape a)"

definition item2 :: "ndarray \<Rightarrow> nat \<Rightarrow> nat \<Rightarrow> pyfloat" where
  "item2 a i j = nd_items a ! (i * (nd_shape a ! 1) + j)"

text \<open>
  A layer of the loaded Keras model: its name and its weight variables.
  \<open>get_weights()\<close> returns the values of the variables of \<open>weights\<close>, in the same order.
\<close>

record keras_layer =
  name :: string
  weights :: "ndarray list"

definition get_weights :: "keras_layer \<Rightarrow> ndarray list" where
  "get_weights layer = weights layer"

text \<open>
  The dictionaries built by \<open>load_h5_model\<close>: \<open>{"shape": ..., "data": ...}\<close> and
  \<open>{"layerName": ..., "kernel": ..., "bias": ...}\<close>.
\<close>

record tensor_dict =
  shape :: "nat list"
  data :: ndarray

record layer_dict =
  layerName :: string
  kernel :: tensor_dict
  bias :: tensor_dict

text \<open>
  The dictionaries built by \<open>convert_weights_to_fixed\<close>:
  \<open>{"magnitude": ..., "sign": ..., "shape": ...}\<close> and
  \<open>{"layerName": ..., "kernel": ..., "bias": ..., "scale": ...}\<close>. The keys that the
  two kinds of dictionary share are prefixed with \<open>fx_\<close> here.
\<close>

record fixed_tensor_dict =
  magnitude :: "int list"
  sign :: "int list"
  fx_shape :: "nat list"

record fixed_layer_dict =
  fx_layerName :: string
  fx_kernel :: fixed_tensor_dict
  fx_bias :: fixed_tensor_dict
  fx_scale :: int

section \<open>Loading the model\<close>

text \<open>
  The loop of \<open>load_h5_model\<close> over \<open>model.layers\<close>, with the list
  \<open>converted_weights\<close> it appends to:
  \<^verbatim>\<open>
  for layer in model.layers:
      if not layer.weights:
          continue
      weights = layer.get_weights()
      if len(weights) != 2:
          continue
      kernel, bias = weights
      converted_weights.append({...})
  \<close>
\<close>

fun layers_loop :: "keras_layer list \<Rightarrow> layer_dict list \<Rightarrow> layer_dict list" where
  "layers_loop [] converted_weights = converted_weights"
| "layers_loop (layer # rest) converted_weights =
     (if weights layer = [] then layers_loop rest converted_weights
      else let ws = get_weights layer
           in if length ws \<noteq> 2 then layers_loop rest converted_weights
              else let k = ws ! 0; b = ws ! 1
                   in layers_loop rest
                        (converted_weights @
                         [\<lparr>layerName = name layer,
                           kernel = \<lparr>shape = nd_shape k, data = k\<rparr>,
                           bias = \<lparr>shape = nd_shape b, data = b\<rparr>\<rparr>]))"

text \<open>
  The fallback that reads the file with h5py. A group of the file is kept as the two
  datasets the loop reads from it, \<open>['dense']['kernel:0']\<close> and \<open>['dense']['bias:0']\<close>;
  \<open>None\<close> is a path that does not exist, which raises \<open>KeyError\<close>.
\<close>

record h5_group =
  dense_kernel :: "ndarray option"
  dense_bias :: "ndarray option"

fun str_contains :: "string \<Rightarrow> string \<Rightarrow> bool" where
  "str_contains sub [] = (sub = [])"
| "str_contains sub (c # cs) = (take (length sub) (c # cs) = sub \<or> str_contains sub cs)"

fun h5_loop :: "(string \<times> h5_group) list \<Rightarrow> layer_dict list \<Rightarrow> py_error + layer_dict list" where
  "h5_loop [] converted_weights = Inr converted_weights"
| "h5_loop ((layer_name, g) # rest) converted_weights =
     (if str_contains ''dense'' layer_name then
        (case dense_kernel g of
           None \<Rightarrow> Inl (KeyError ''kernel:0'')
         | Some k \<Rightarrow>
             (case dense_bias g of
                None \<Rightarrow> Inl (KeyError ''bias:0'')
              | Some b \<Rightarrow>
                  h5_loop rest
                    (converted_weights @
                     [\<lparr>layerName = layer_name,
                       kernel = \<lparr>shape = nd_shape k, data = k\<rparr>,
                       bias = \<lparr>shape = nd_shape b, data = b\<rparr>\<rparr>])))
      else h5_loop rest converted_weights)"

text \<open>
  \<open>load_h5_model\<close>. What \<open>tf.keras.models.load_model\<close> gives for the path (the layers
  of the model, or the exception it raises) and what \<open>h5py.File\<close> gives (the groups of
  the file under their keys, or an exception) are arguments.
\<close>

definition load_h5_model ::
  "py_error + keras_layer list \<Rightarrow> py_error + (string \<times> h5_group) list \<Rightarrow>
   py_error + layer_dict list" where
  "load_h5_model loaded h5file =
     (case loaded of
        Inr model_layers \<Rightarrow> Inr (layers_loop model_layers [])
      | Inl e \<Rightarrow>
          (case (case h5file of Inl e2 \<Rightarrow> Inl e2 | Inr f \<Rightarrow> h5_loop f []) of
             Inl e2 \<Rightarrow> Inl (Exception ''Failed to load model using both methods'')
           | Inr converted_weights \<Rightarrow> Inr converted_weights))"

section \<open>Conversion to fixed point\<close>

text \<open>
  The inner loops of \<open>convert_weights_to_fixed\<close>, with the two lists they append to:
  \<^verbatim>\<open>
  for val in layer["kernel"]["data"].flatten():
      sign, mag = float_to_fixed(float(val), scale)
      kernel_signs.append(sign)
      kernel_mags.append(mag)
  \<close>
\<close>

fun values_loop ::
  "pyfloat list \<Rightarrow> int \<Rightarrow> int list \<Rightarrow> int list \<Rightarrow> py_error + (int list \<times> int list)" where
  "values_loop [] scale signs mags = Inr (signs, mags)"
| "values_loop (val # vals) scale signs mags =
     (case float_to_fixed val scale of
        Inl e \<Rightarrow> Inl e
      | Inr (sg, mag) \<Rightarrow> values_loop vals scale (signs @ [sg]) (mags @ [mag]))"

fun convert_loop ::
  "layer_dict list \<Rightarrow> int \<Rightarrow> fixed_layer_dict list \<Rightarrow> py_error + fixed_layer_dict list" where
  "convert_loop [] scale converted = Inr converted"
| "convert_loop (layer # rest) scale converted =
     (case values_loop (flatten (data (kernel layer))) scale [] [] of
        Inl e \<Rightarrow> Inl e
      | Inr (kernel_signs, kernel_mags) \<Rightarrow>
          (case values_loop (flatten (data (bias layer))) scale [] [] of
             Inl e \<Rightarrow> Inl e
           | Inr (bias_signs, bias_mags) \<Rightarrow>
               convert_loop rest scale
                 (converted @
                  [\<lparr>fx_layerName = layerName layer,
                    fx_kernel = \<lparr>magnitude = kernel_mags, sign = kernel_signs,
                                 fx_shape = shape (kernel layer)\<rparr>,
                    fx_bias = \<lparr>magnitude = bias_mags, sign = bias_signs,
                               fx_shape = shape (bias layer)\<rparr>,
                    fx_scale = scale\<rparr>])))"

definition convert_weights_to_fixed ::
  "layer_dict list \<Rightarrow> int \<Rightarrow> py_error + fixed_layer_dict list" where
  "convert_weights_to_fixed weights_list scale = convert_loop weights_list scale []"

section \<open>Generation of the Move module\<close>

text \<open>\<open>str\<close> of an \<open>int\<close>: decimal digits, a minus sign before a negative number.\<close>

fun str_nat :: "nat \<Rightarrow> string" where
  "str_nat n =
     (if n < 10 then [''0123456789'' ! n]
      else str_nat (n div 10) @ [''0123456789'' ! (n mod 10)])"

declare str_nat.simps [simp del]

definition str_int :: "int \<Rightarrow> string" where
  "str_int i = (if i < 0 then CHR ''-'' # str_nat (nat (- i)) else str_nat (nat i))"

text \<open>\<open>sep.join(xs)\<close>\<close>

fun join :: "string \<Rightarrow> string list \<Rightarrow> string" where
  "join sep [] = []"
| "join sep [x] = x"
| "join sep (x # y # ys) = x @ sep @ join sep (y # ys)"

text \<open>\<open>f"vector[{', '.join(map(str, xs))}]"\<close>\<close>

definition vector_literal :: "int list \<Rightarrow> string" where
  "vector_literal xs = ''vector['' @ join '', '' (map str_int xs) @ '']''"

text \<open>\<open>a, b = xs\<close> raises \<open>ValueError\<close> unless \<open>xs\<close> has exactly two elements.\<close>

fun unpack2 :: "nat list \<Rightarrow> py_error + (nat \<times> nat)" where
  "unpack2 [a, b] = Inr (a, b)"
| "unpack2 xs =
     (if length xs < 2
      then Inl (ValueError (''not enough values to unpack (expected 2, got '' @
                            str_nat (length xs) @ '')''))
      else Inl (ValueError ''too many values to unpack (expected 2)''))"

text \<open>\<open>xs[i]\<close> for \<open>i \<ge> 0\<close> raises \<open>IndexError\<close> beyond the end of the list.\<close>

definition list_get :: "'a list \<Rightarrow> nat \<Rightarrow> py_error + 'a" where
  "list_get xs i = (if i < length xs then Inr (xs ! i) else Inl (IndexError ''list index out of range''))"

text \<open>The text \<open>move_code\<close> starts with.\<close>

definition module_prologue :: string where
  "module_prologue =
     ''module models::model {\<newline>'' @
     ''    use sui::tx_context::TxContext;\<newline>'' @
     ''    use tensorflowsui::graph;\<newline>'' @
     ''    use tensorflowsui::tensor;\<newline>'' @
     ''\<newline>'' @
     ''    public fun create_model_signed_fixed(graph: &mut graph::SignedFixedGraph, scale: u64) {\<newline>''"
text \<open>
  The last piece appended to \<open>move_code\<close>. In the source it is a plain string
  literal, not an f-string, so \<open>{scale}\<close> and the closing \<open>}}\<close> are part of the text
  as they stand.
\<close>

definition helper_functions :: string where
  "helper_functions =
     ''\<newline>'' @
     ''    }\<newline>'' @
     ''\<newline>'' @
     ''    entry public fun split_chunk_compute(\<newline>'' @
     ''        graph_obj: &graph::SignedFixedGraph,\<newline>'' @
     ''        pd: &mut graph::PartialDenses,\<newline>'' @
     ''        partial_name: vector<u8>,\<newline>'' @
     ''        input_magnitude: vector<u64>, input_sign: vector<u64>,\<newline>'' @
     ''        activation_type: u64,\<newline>'' @
     ''        start_j: u64,\<newline>'' @
     ''        end_j: u64\<newline>'' @
     ''    ) {\<newline>'' @
     ''        graph::split_chunk_compute(graph_obj, pd, partial_name, input_magnitude, input_sign, activation_type, start_j, end_j);    \<newline>'' @
     ''    }\<newline>'' @
     ''\<newline>'' @
     ''    entry public fun split_chunk_finalize(\<newline>'' @
     ''        pd: &mut graph::PartialDenses,\<newline>'' @
     ''        partial_name: vector<u8>\<newline>'' @
     ''    ): (vector<u64>, vector<u64>, u64) {\<newline>'' @
     ''        let mut results_mag = vector::empty<u64>();\<newline>'' @
     ''        let mut result_sign = vector::empty<u64>();\<newline>'' @
     ''        let mut results;\<newline>'' @
     ''        let (_results_mag, _result_sign, _results) = graph::split_chunk_finalize(pd, partial_name);\<newline>'' @
     ''\<newline>'' @
     ''        results_mag = _results_mag;\<newline>'' @
     ''        result_sign = _result_sign;\<newline>'' @
     ''        results = _results;\<newline>'' @
     ''\<newline>'' @
     ''        (results_mag, result_sign, results)\<newline>'' @
     ''    }\<newline>'' @
     ''\<newline>'' @
     ''    entry public fun ptb_layer(\<newline>'' @
     ''        graph: &graph::SignedFixedGraph,\<newline>'' @
     ''        input_magnitude: vector<u64>, input_sign: vector<u64>,\<newline>'' @
     ''        scale: u64, name: vector<u8>\<newline>'' @
     ''    ) : (vector<u64>, vector<u64>, u64) {\<newline>'' @
     ''        let mut results_mag = vector::empty<u64>();\<newline>'' @
     ''        let mut result_sign = vector::empty<u64>();\<newline>'' @
     ''        let mut results;\<newline>'' @
     ''\<newline>'' @
     ''        let (_results_mag, _result_sign, _results) = graph::ptb_layer(graph, input_magnitude, input_sign, scale, name);\<newline>'' @
     ''\<newline>'' @
     ''        results_mag = _results_mag;\<newline>'' @
     ''        result_sign = _result_sign;\<newline>'' @
     ''        results = _results;\<newline>'' @
     ''\<newline>'' @
     ''        (results_mag, result_sign, results)\<newline>'' @
     ''    }\<newline>'' @
     ''\<newline>'' @
     ''    entry public fun ptb_layer_arg_max(\<newline>'' @
     ''        graph: &graph::SignedFixedGraph,\<newline>'' @
     ''        input_magnitude: vector<u64>, input_sign: vector<u64>,\<newline>'' @
     ''        scale: u64, name: vector<u8>\<newline>'' @
     ''    ) : u64 {\<newline>'' @
     ''        let results = graph::ptb_layer_arg_max(graph, input_magnitude, input_sign, scale, name);\<newline>'' @
     ''        results\<newline>'' @
     ''    }\<newline>'' @
     ''\<newline>'' @
     ''    public entry fun initialize(ctx: &mut TxContext) {\<newline>'' @
     ''        let mut graph = graph::create_signed_graph(ctx);\<newline>'' @
     ''        create_model_signed_fixed(&mut graph, {scale}); \<newline>'' @
     ''        let mut partials = graph::create_partial_denses(ctx);\<newline>'' @
     ''        graph::add_partials_for_all_but_last(&graph, &mut partials);\<newline>'' @
     ''        graph::share_graph(graph);\<newline>'' @
     ''        graph::share_partial(partials);\<newline>'' @
     ''    }\<newline>'' @
     ''}}''"
text \<open>
  The first loop, which appends one declaration per layer:
  \<^verbatim>\<open>
  for layer in converted_weights:
      input_size, output_size = layer["kernel"]["shape"]
      move_code += f'        graph::DenseSignedFixed(graph, {input_size}, ...'
  \<close>
\<close>

fun declarations_loop :: "fixed_layer_dict list \<Rightarrow> string \<Rightarrow> py_error + string" where
  "declarations_loop [] move_code = Inr move_code"
| "declarations_loop (layer # rest) move_code =
     (case unpack2 (fx_shape (fx_kernel layer)) of
        Inl e \<Rightarrow> Inl e
      | Inr (input_size, output_size) \<Rightarrow>
          declarations_loop rest
            (move_code @
             ''        graph::DenseSignedFixed(graph, '' @
             str_nat input_size @
             '', '' @
             str_nat output_size @
             '', b\"'' @
             fx_layerName layer @
             ''\", scale);\<newline>''))"

text \<open>The second loop, which appends the four vectors of each layer and the call that sets them.\<close>

fun layer_weights_loop :: "fixed_layer_dict list \<Rightarrow> string \<Rightarrow> py_error + string" where
  "layer_weights_loop [] move_code = Inr move_code"
| "layer_weights_loop (layer # rest) move_code =
     (let kernel_mag = vector_literal (magnitude (fx_kernel layer));
          kernel_sign = vector_literal (sign (fx_kernel layer));
          bias_mag = vector_literal (magnitude (fx_bias layer));
          bias_sign = vector_literal (sign (fx_bias layer))
      in case list_get (fx_shape (fx_kernel layer)) 0 of
           Inl e \<Rightarrow> Inl e
         | Inr shape0 \<Rightarrow>
             (case list_get (fx_shape (fx_kernel layer)) 1 of
                Inl e \<Rightarrow> Inl e
              | Inr shape1 \<Rightarrow>
                  layer_weights_loop rest
                    (move_code @
                     ''\<newline>        let w'' @
                     fx_layerName layer @
                     ''_mag = '' @
                     kernel_mag @
                     '';\<newline>        let w'' @
                     fx_layerName layer @
                     ''_sign = '' @
                     kernel_sign @
                     '';\<newline>        let b'' @
                     fx_layerName layer @
                     ''_mag = '' @
                     bias_mag @
                     '';\<newline>        let b'' @
                     fx_layerName layer @
                     ''_sign = '' @
                     bias_sign @
                     '';\<newline>\<newline>        graph::set_layer_weights_signed_fixed(\<newline>            graph,\<newline>            b\"'' @
                     fx_layerName layer @
                     ''\",\<newline>            w'' @
                     fx_layerName layer @
                     ''_mag, w'' @
                     fx_layerName layer @
                     ''_sign,\<newline>            b'' @
                     fx_layerName layer @
                     ''_mag, b'' @
                     fx_layerName layer @
                     ''_sign,\<newline>            '' @
                     str_nat shape0 @
                     '', '' @
                     str_nat shape1 @
                     '',\<newline>            scale\<newline>        );'')))"

text \<open>\<open>generate_move_code\<close>. The argument \<open>scale\<close> is not used by the body.\<close>

definition generate_move_code :: "fixed_layer_dict list \<Rightarrow> int \<Rightarrow> py_error + string" where
  "generate_move_code converted_weights scale =
     (case declarations_loop converted_weights module_prologue of
        Inl e \<Rightarrow> Inl e
      | Inr move_code \<Rightarrow>
          (case layer_weights_loop converted_weights move_code of
             Inl e \<Rightarrow> Inl e
           | Inr move_code' \<Rightarrow> Inr (move_code' @ helper_functions)))"

section \<open>The pipeline of \<open>main\<close>\<close>

text \<open>
  \<open>main\<close> loads the model, converts the weights and only then generates the text that
  is written to \<open>model.move\<close>; an exception of a step ends the run.
\<close>

definition main ::
  "py_error + keras_layer list \<Rightarrow> py_error + (string \<times> h5_group) list \<Rightarrow> int \<Rightarrow>
   py_error + string" where
  "main loaded h5file scale =
     (case load_h5_model loaded h5file of
        Inl e \<Rightarrow> Inl e
      | Inr weights_list \<Rightarrow>
          (case convert_weights_to_fixed weights_list scale of
             Inl e \<Rightarrow> Inl e
           | Inr converted_weights \<Rightarrow> generate_move_code converted_weights scale))"

section \<open>Notions used in the statements\<close>

text \<open>The exceptions that can leave the codec.\<close>

definition nan_error :: py_error where
  "nan_error = ValueError ''cannot convert float NaN to integer''"

definition infinity_error :: py_error where
  "infinity_error = OverflowError ''cannot convert float infinity to integer''"

definition int_too_large_error :: py_error where
  "int_too_large_error = OverflowError ''int too large to convert to float''"

text \<open>The values of a layer in the order the conversion visits them: the kernel, then the bias.\<close>

definition layer_values :: "layer_dict \<Rightarrow> pyfloat list" where
  "layer_values layer = flatten (data (kernel layer)) @ flatten (data (bias layer))"

text \<open>The exception of the first value, in the order of the list, on which the codec raises.\<close>

fun first_error :: "pyfloat list \<Rightarrow> int \<Rightarrow> py_error option" where
  "first_error [] scale = None"
| "first_error (x # xs) scale =
     (case float_to_fixed x scale of Inl e \<Rightarrow> Some e | Inr r \<Rightarrow> first_error xs scale)"

text \<open>The sign and the magnitude the codec returns, where it returns.\<close>

definition sign_of_value :: "int \<Rightarrow> pyfloat \<Rightarrow> int" where
  "sign_of_value scale x = fst (projr (float_to_fixed x scale))"

definition mag_of_value :: "int \<Rightarrow> pyfloat \<Rightarrow> int" where
  "mag_of_value scale x = snd (projr (float_to_fixed x scale))"

definition fixed_layer_of :: "int \<Rightarrow> layer_dict \<Rightarrow> fixed_layer_dict" where
  "fixed_layer_of scale layer =
     \<lparr>fx_layerName = layerName layer,
      fx_kernel = \<lparr>magnitude = map (mag_of_value scale) (flatten (data (kernel layer))),
                   sign = map (sign_of_value scale) (flatten (data (kernel layer))),
                   fx_shape = shape (kernel layer)\<rparr>,
      fx_bias = \<lparr>magnitude = map (mag_of_value scale) (flatten (data (bias layer))),
                 sign = map (sign_of_value scale) (flatten (data (bias layer))),
                 fx_shape = shape (bias layer)\<rparr>,
      fx_scale = scale\<rparr>"

text \<open>The dictionary \<open>load_h5_model\<close> appends for a layer it keeps.\<close>

definition layer_entry :: "keras_layer \<Rightarrow> layer_dict" where
  "layer_entry layer =
     \<lparr>layerName = name layer,
      kernel = \<lparr>shape = nd_shape (get_weights layer ! 0), data = get_weights layer ! 0\<rparr>,
      bias = \<lparr>shape = nd_shape (get_weights layer ! 1), data = get_weights layer ! 1\<rparr>\<rparr>"

text \<open>
  A dense layer as Keras builds it: a kernel of shape \<open>[rows, cols]\<close>, a bias of shape
  \<open>[cols]\<close>, both holding as many elements as their shape says, and the recorded shapes
  those of the arrays.
\<close>

definition dense_layer :: "layer_dict \<Rightarrow> nat \<Rightarrow> nat \<Rightarrow> bool" where
  "dense_layer layer rows cols \<longleftrightarrow>
     nd_shape (data (kernel layer)) = [rows, cols] \<and>
     nd_shape (data (bias layer)) = [cols] \<and>
     wf_ndarray (data (kernel layer)) \<and> wf_ndarray (data (bias layer)) \<and>
     shape (kernel layer) = nd_shape (data (kernel layer)) \<and>
     shape (bias layer) = nd_shape (data (bias layer))"

text \<open>
  What it is for a converted layer \<open>q\<close> to hold the layer \<open>l\<close> flattened and encoded at
  \<open>scale\<close>: the name and the two shapes are those of \<open>l\<close>; the lists of magnitudes and
  of signs are as long as the flattened kernel and bias; their \<open>i\<close>-th entries are what
  the codec returns for the \<open>i\<close>-th flattened element; and for a dense layer of shape
  \<open>[rows, cols]\<close> the kernel lists have \<open>rows * cols\<close> entries, the bias lists \<open>cols\<close>,
  and the entries at \<open>i * cols + j\<close> encode the kernel element at row \<open>i\<close>, column \<open>j\<close>.
\<close>

definition quantized_from :: "int \<Rightarrow> layer_dict \<Rightarrow> fixed_layer_dict \<Rightarrow> bool" where
  "quantized_from scale l q \<longleftrightarrow>
     fx_layerName q = layerName l \<and>
     fx_shape (fx_kernel q) = shape (kernel l) \<and>
     fx_shape (fx_bias q) = shape (bias l) \<and>
     length (magnitude (fx_kernel q)) = length (flatten (data (kernel l))) \<and>
     length (sign (fx_kernel q)) = length (flatten (data (kernel l))) \<and>
     length (magnitude (fx_bias q)) = length (flatten (data (bias l))) \<and>
     length (sign (fx_bias q)) = length (flatten (data (bias l))) \<and>
     (\<forall>i<length (flatten (data (kernel l))).
        float_to_fixed (flatten (data (kernel l)) ! i) scale =
        Inr (sign (fx_kernel q) ! i, magnitude (fx_kernel q) ! i)) \<and>
     (\<forall>i<length (flatten (data (bias l))).
        float_to_fixed (flatten (data (bias l)) ! i) scale =
        Inr (sign (fx_bias q) ! i, magnitude (fx_bias q) ! i)) \<and>
     (\<forall>rows cols. dense_layer l rows cols \<longrightarrow>
        fx_shape (fx_kernel q) = [rows, cols] \<and>
        length (magnitude (fx_kernel q)) = rows * cols \<and>
        length (sign (fx_kernel q)) = rows * cols \<and>
        length (magnitude (fx_bias q)) = cols \<and>
        length (sign (fx_bias q)) = cols \<and>
        (\<forall>i<rows. \<forall>j<cols.
           float_to_fixed (item2 (data (kernel l)) i j) scale =
           Inr (sign (fx_kernel q) ! (i * cols + j), magnitude (fx_kernel q) ! (i * cols + j))))"

text \<open>Two converted layers that agree on every key the generator reads.\<close>

definition same_generator_input :: "fixed_layer_dict \<Rightarrow> fixed_layer_dict \<Rightarrow> bool" where
  "same_generator_input a b \<longleftrightarrow>
     fx_layerName a = fx_layerName b \<and>
     magnitude (fx_kernel a) = magnitude (fx_kernel b) \<and>
     sign (fx_kernel a) = sign (fx_kernel b) \<and>
     magnitude (fx_bias a) = magnitude (fx_bias b) \<and>
     sign (fx_bias a) = sign (fx_bias b) \<and>
     fx_shape (fx_kernel a) = fx_shape (fx_kernel b)"

section \<open>Example inputs\<close>

text \<open>
  A model of one dense layer \<open>dense_1\<close> with the kernel \<open>[[1.005], [-2.0]]\<close> and the bias
  \<open>[0.5]\<close>, as \<open>float32\<close> values: the \<open>float32\<close> nearest to \<open>1.005\<close> is
  \<open>8430551 / 8388608\<close>.
\<close>

definition dense_1 :: layer_dict where
  "dense_1 =
     \<lparr>layerName = ''dense_1'',
      kernel = \<lparr>shape = [2, 1],
                data = \<lparr>nd_shape = [2, 1], nd_items = [Fin (8430551 / 8388608), Fin (- 2)]\<rparr>\<rparr>,
      bias = \<lparr>shape = [1], data = \<lparr>nd_shape = [1], nd_items = [Fin (1 / 2)]\<rparr>\<rparr>\<rparr>"

text \<open>Two layers of one weight and one bias each, with a NaN in different places.\<close>

definition nan_in_kernel :: layer_dict where
  "nan_in_kernel =
     \<lparr>layerName = ''a'',
      kernel = \<lparr>shape = [1, 1], data = \<lparr>nd_shape = [1, 1], nd_items = [NaN]\<rparr>\<rparr>,
      bias = \<lparr>shape = [1], data = \<lparr>nd_shape = [1], nd_items = [Fin 0]\<rparr>\<rparr>\<rparr>"

definition nan_in_bias :: layer_dict where
  "nan_in_bias =
     \<lparr>layerName = ''b'',
      kernel = \<lparr>shape = [1, 1], data = \<lparr>nd_shape = [1, 1], nd_items = [Fin 0]\<rparr>\<rparr>,
      bias = \<lparr>shape = [1], data = \<lparr>nd_shape = [1], nd_items = [NaN]\<rparr>\<rparr>\<rparr>"

text \<open>Layers of a loaded model: the one \<open>dense_1\<close> comes from, and three others.\<close>

definition keras_dense_1 :: keras_layer where
  "keras_dense_1 =
     \<lparr>name = ''dense_1'',
      weights = [\<lparr>nd_shape = [2, 1], nd_items = [Fin (8430551 / 8388608), Fin (- 2)]\<rparr>,
                 \<lparr>nd_shape = [1], nd_items = [Fin (1 / 2)]\<rparr>]\<rparr>"

definition keras_flatten :: keras_layer where
  "keras_flatten = \<lparr>name = ''flatten'', weights = []\<rparr>"

definition keras_no_bias :: keras_layer where
  "keras_no_bias =
     \<lparr>name = ''dense_2'',
      weights = [\<lparr>nd_shape = [1, 1], nd_items = [Fin 1]\<rparr>]\<rparr>"

definition keras_mismatch :: keras_layer where
  "keras_mismatch =
     \<lparr>name = ''odd'',
      weights = [\<lparr>nd_shape = [2, 3], nd_items = [Fin 0, Fin 0, Fin 0, Fin 0, Fin 0, Fin 0]\<rparr>,
                 \<lparr>nd_shape = [5], nd_items = [Fin 0, Fin 0, Fin 0, Fin 0, Fin 0]\<rparr>]\<rparr>"

definition keras_nan :: keras_layer where
  "keras_nan =
     \<lparr>name = ''a'',
      weights = [\<lparr>nd_shape = [1, 1], nd_items = [NaN]\<rparr>,
                 \<lparr>nd_shape = [1], nd_items = [Fin 0]\<rparr>]\<rparr>"

text \<open>The layer \<open>dense_1\<close> converted at scale \<open>2\<close>.\<close>

definition fixed_dense_1 :: fixed_layer_dict where
  "fixed_dense_1 =
     \<lparr>fx_layerName = ''dense_1'',
      fx_kernel = \<lparr>magnitude = [100, 200], sign = [0, 1], fx_shape = [2, 1]\<rparr>,
      fx_bias = \<lparr>magnitude = [50], sign = [0], fx_shape = [1]\<rparr>,
      fx_scale = 2\<rparr>"


section \<open>Facts about rounding\<close>

text \<open>\<open>ilog2\<close> is the exponent of the leading bit.\<close>

lemma ilog2_ge1:
  assumes "1 \<le> q"
  shows "2 powi ilog2 q \<le> q \<and> q < 2 powi (ilog2 q + 1)"
proof -
  define n where "n = nat \<lfloor>q\<rfloor>"
  define l where "l = floorlog 2 n"
  have f1: "1 \<le> \<lfloor>q\<rfloor>" using assms by (simp add: le_floor_iff)
  from f1 have n1: "1 \<le> n" unfolding n_def by linarith
  have b: "2 ^ (l - 1) \<le> n \<and> n < 2 ^ l"
    unfolding l_def using floorlog_bounds[of n 2] n1 by simp
  have l1: "1 \<le> l" using b n1 by (cases l) auto
  have "int n = \<lfloor>q\<rfloor>" using f1 unfolding n_def by linarith
  then have nf: "rat_of_nat n = rat_of_int \<lfloor>q\<rfloor>" by (metis of_int_of_nat_eq)
  have nq: "rat_of_nat n \<le> q" "q < rat_of_nat n + 1"
    unfolding nf by linarith+
  have il: "ilog2 q = int l - 1" using assms by (simp add: ilog2_def n_def l_def)
  have p1: "(2::rat) powi (int l - 1) = 2 ^ (l - 1)"
    using l1 by (simp add: power_int_def nat_diff_distrib')
  have p2: "(2::rat) powi (int l - 1 + 1) = 2 ^ l"
    by simp
  have "(2::rat) ^ (l - 1) \<le> rat_of_nat n"
    using b by (metis of_nat_le_iff of_nat_numeral of_nat_power)
  then have lo: "(2::rat) ^ (l - 1) \<le> q" using nq by linarith
  have "rat_of_nat n + 1 \<le> 2 ^ l"
  proof -
    have "n + 1 \<le> 2 ^ l" using b by simp
    then have "rat_of_nat (n + 1) \<le> rat_of_nat (2 ^ l)" by (simp only: of_nat_le_iff)
    then show ?thesis by simp
  qed
  then have hi: "q < 2 ^ l" using nq by linarith
  show ?thesis unfolding il p1 p2 using lo hi by simp
qed

lemma ilog2_lt1:
  assumes "0 < q" "q < 1"
  shows "2 powi ilog2 q \<le> q \<and> q < 2 powi (ilog2 q + 1)"
proof -
  define y where "y = 1 / q"
  define n where "n = nat (\<lceil>y\<rceil> - 1)"
  define l where "l = floorlog 2 n"
  have y1: "1 < y" using assms by (simp add: y_def)
  have c2: "2 \<le> \<lceil>y\<rceil>" using y1 by (simp add: le_ceiling_iff)
  have n1: "1 \<le> n" using c2 unfolding n_def by linarith
  have b: "2 ^ (l - 1) \<le> n \<and> n < 2 ^ l"
    unfolding l_def using floorlog_bounds[of n 2] n1 by simp
  have l1: "1 \<le> l" using b n1 by (cases l) auto
  have nint: "int n = \<lceil>y\<rceil> - 1" using c2 by (simp add: n_def)
  have ny: "rat_of_nat n < y" "y \<le> rat_of_nat n + 1"
  proof -
    have "rat_of_int (\<lceil>y\<rceil> - 1) < y" by linarith
    then show "rat_of_nat n < y" using nint by (metis of_int_of_nat_eq)
    have "y \<le> rat_of_int \<lceil>y\<rceil>" by linarith
    then show "y \<le> rat_of_nat n + 1" using nint
      by (metis diff_add_cancel of_int_1 of_int_add of_int_of_nat_eq)
  qed
  have il: "ilog2 q = - int l" using assms by (simp add: ilog2_def n_def l_def y_def)
  have lo: "(2::rat) ^ (l - 1) < y"
  proof -
    have "(2::rat) ^ (l - 1) \<le> rat_of_nat n"
      using b by (metis of_nat_le_iff of_nat_numeral of_nat_power)
    then show ?thesis using ny by linarith
  qed
  have hi: "y \<le> 2 ^ l"
  proof -
    have "n + 1 \<le> 2 ^ l" using b by simp
    then have "rat_of_nat (n + 1) \<le> rat_of_nat (2 ^ l)" by (simp only: of_nat_le_iff)
    then show ?thesis using ny by simp
  qed
  have q1: "1 / 2 ^ l \<le> q"
  proof -
    have "1 / (2::rat) ^ l \<le> 1 / y" using hi y1 by (simp add: frac_le)
    then show ?thesis by (simp add: y_def)
  qed
  have q2: "q < 1 / 2 ^ (l - 1)"
  proof -
    have "1 / y < 1 / (2::rat) ^ (l - 1)" using lo by (simp add: frac_less2)
    then show ?thesis by (simp add: y_def)
  qed
  have p1: "(2::rat) powi (- int l) = 1 / 2 ^ l"
    by (simp add: power_int_def field_simps)
  have p2: "(2::rat) powi (- int l + 1) = 1 / 2 ^ (l - 1)"
  proof -
    have "- int l + 1 = - int (l - 1)" using l1 by simp
    then show ?thesis by (simp only: power_int_minus power_int_of_nat) (simp add: field_simps)
  qed
  show ?thesis using q1 q2 il p1 p2 by simp
qed

lemma ilog2_bounds:
  "0 < q \<Longrightarrow> 2 powi ilog2 q \<le> q \<and> q < 2 powi (ilog2 q + 1)"
  using ilog2_ge1 ilog2_lt1 by (cases "1 \<le> q") auto


lemma pow2_less_imp: "(2::rat) powi a < 2 powi b \<Longrightarrow> a < b"
proof (rule ccontr)
  assume h: "(2::rat) powi a < 2 powi b" and "\<not> a < b"
  then have "b \<le> a" by simp
  then have "(2::rat) powi b \<le> 2 powi a" by (rule power_int_increasing) simp
  with h show False by simp
qed

lemma ilog2_unique:
  assumes "0 < q" "2 powi k \<le> q" "q < 2 powi (k + 1)"
  shows "ilog2 q = k"
proof -
  from ilog2_bounds[OF assms(1)]
  have b: "2 powi ilog2 q \<le> q" "q < 2 powi (ilog2 q + 1)" by simp_all
  have "(2::rat) powi ilog2 q < 2 powi (k + 1)" using b(1) assms(3) by simp
  then have "ilog2 q < k + 1" by (rule pow2_less_imp)
  moreover have "(2::rat) powi k < 2 powi (ilog2 q + 1)" using b(2) assms(2) by simp
  then have "k < ilog2 q + 1" by (rule pow2_less_imp)
  ultimately show ?thesis by simp
qed

lemma floor_frac_bounds: "rat_of_int \<lfloor>q\<rfloor> \<le> q \<and> q < rat_of_int \<lfloor>q\<rfloor> + 1"
  by linarith

lemma py_round_floor: "\<lfloor>q\<rfloor> \<le> py_round q \<and> py_round q \<le> \<lfloor>q\<rfloor> + 1"
  by (simp add: py_round_def Let_def)

lemma py_round_of_int: "py_round (rat_of_int n) = n"
  by (simp add: py_round_def Let_def)

lemma py_round_ge: "rat_of_int n \<le> q \<Longrightarrow> n \<le> py_round q"
proof -
  assume "rat_of_int n \<le> q"
  then have "n \<le> \<lfloor>q\<rfloor>" by (simp add: le_floor_iff)
  with py_round_floor[of q] show ?thesis by simp
qed

lemma py_round_le: "q \<le> rat_of_int n \<Longrightarrow> py_round q \<le> n"
proof (cases "q = rat_of_int n")
  case True
  then show ?thesis by (simp add: py_round_of_int)
next
  case False
  assume "q \<le> rat_of_int n"
  with False have "q < rat_of_int n" by simp
  then have "\<lfloor>q\<rfloor> < n" by (simp add: floor_less_iff)
  with py_round_floor[of q] show ?thesis by simp
qed

lemma py_round_nonneg: "0 \<le> q \<Longrightarrow> 0 \<le> py_round q"
  using py_round_ge[of 0 q] by simp

lemma py_round_near:
  assumes "\<bar>q - rat_of_int n\<bar> < 1 / 2"
  shows "py_round q = n"
proof (cases "rat_of_int n \<le> q")
  case True
  then have "\<lfloor>q\<rfloor> = n" using assms by (intro floor_unique) auto
  then show ?thesis using assms True by (simp add: py_round_def Let_def)
next
  case False
  then have "\<lfloor>q\<rfloor> = n - 1" using assms by (intro floor_unique) auto
  then show ?thesis using assms False by (simp add: py_round_def Let_def)
qed

lemma py_round_tie:
  assumes "q = rat_of_int n + 1 / 2"
  shows "py_round q = (if even n then n else n + 1)"
proof -
  have "\<lfloor>q\<rfloor> = n" using assms by (intro floor_unique) auto
  then show ?thesis using assms by (simp add: py_round_def Let_def)
qed

lemma py_round_diff: "\<bar>rat_of_int (py_round q) - q\<bar> \<le> 1 / 2"
  using floor_frac_bounds[of q] by (auto simp: py_round_def Let_def)

lemma round_mag_known:
  assumes "0 < q" "2 powi k \<le> q" "q < 2 powi (k + 1)"
  shows "round_mag q =
    (let e = max (k - 52) (- 1074);
         r = rat_of_int (py_round (q / 2 powi e)) * 2 powi e
     in if 2 ^ 1024 \<le> r then None else Some r)"
  using assms ilog2_unique[OF assms] by (simp add: round_mag_def)

lemma round_mag_nonneg: "round_mag q = Some r \<Longrightarrow> 0 \<le> r"
proof -
  assume h: "round_mag q = Some r"
  show ?thesis
  proof (cases "q \<le> 0")
    case True
    with h show ?thesis by (simp add: round_mag_def)
  next
    case False
    define e where "e = max (ilog2 q - 52) (- 1074)"
    have "0 \<le> q / 2 powi e" using False by simp
    then have "0 \<le> py_round (q / 2 powi e)" by (rule py_round_nonneg)
    then have "0 \<le> rat_of_int (py_round (q / 2 powi e)) * 2 powi e" by simp
    with h False show ?thesis
      by (auto simp: round_mag_def Let_def e_def split: if_splits)
  qed
qed


lemma pow2_div: "(2::rat) powi a / 2 powi b = 2 powi (a - b)"
  by (simp add: power_int_diff)

lemma pow2_mult: "(2::rat) powi a * 2 powi b = 2 powi (a + b)"
  by (simp add: power_int_add)

lemma round_mag_finite:
  assumes "q \<le> max_double"
  shows "\<exists>r. round_mag q = Some r"
proof (cases "q \<le> 0")
  case True
  then show ?thesis by (simp add: round_mag_def)
next
  case False
  then have qpos: "0 < q" by simp
  define k where "k = ilog2 q"
  define e where "e = max (k - 52) (- 1074)"
  define y where "y = q / 2 powi e"
  define m where "m = py_round y"
  from ilog2_bounds[OF qpos] have b: "2 powi k \<le> q" "q < 2 powi (k + 1)"
    by (simp_all add: k_def)
  have "max_double < 2 powi 1024" by (simp add: max_double_def)
  with b(1) assms have "(2::rat) powi k < 2 powi 1024" by linarith
  then have k: "k < 1024" by (rule pow2_less_imp)
  have e: "k - 52 \<le> e" "e \<le> 971" using k by (simp_all add: e_def)
  have p: "(0::rat) < 2 powi e" by simp
  have "rat_of_int m * 2 powi e < 2 ^ 1024"
  proof (cases "e = 971")
    case True
    have "y \<le> max_double / 2 powi e" unfolding y_def using assms p
      by (simp add: divide_right_mono)
    also have "\<dots> = rat_of_int (2 ^ 53 - 1)" by (simp add: True max_double_def)
    finally have "m \<le> 2 ^ 53 - 1" unfolding m_def by (rule py_round_le)
    then have "rat_of_int m \<le> rat_of_int (2 ^ 53 - 1)" by (simp only: of_int_le_iff)
    then have "rat_of_int m * 2 powi e \<le> rat_of_int (2 ^ 53 - 1) * 2 powi e"
      using p by (simp add: mult_right_mono)
    also have "\<dots> < 2 ^ 1024" by (simp add: True)
    finally show ?thesis .
  next
    case False
    with e have e970: "e \<le> 970" by simp
    have "y < 2 powi (k + 1) / 2 powi e" unfolding y_def using b(2) p
      by (simp add: divide_strict_right_mono)
    also have "\<dots> = 2 powi (k + 1 - e)" by (rule pow2_div)
    also have "\<dots> \<le> 2 powi 53" using e by (intro power_int_increasing) simp_all
    finally have "y \<le> rat_of_int (2 ^ 53)" by simp
    then have "m \<le> 2 ^ 53" unfolding m_def by (rule py_round_le)
    then have "rat_of_int m \<le> rat_of_int (2 ^ 53)" by (simp only: of_int_le_iff)
    then have "rat_of_int m * 2 powi e \<le> rat_of_int (2 ^ 53) * 2 powi e"
      using p by (simp add: mult_right_mono)
    also have "\<dots> = 2 powi (53 + e)" using pow2_mult[of 53 e] by simp
    also have "\<dots> \<le> 2 powi 1023" using e970 by (intro power_int_increasing) simp_all
    also have "\<dots> < 2 ^ 1024" by simp
    finally show ?thesis .
  qed
  then show ?thesis using False
    by (simp add: round_mag_def Let_def k_def e_def y_def m_def)
qed

lemma round_mag_overflow:
  assumes "2 ^ 1024 \<le> q"
  shows "round_mag q = None"
proof -
  have qpos: "0 < q" using assms by (rule less_le_trans[rotated]) simp
  define k where "k = ilog2 q"
  define e where "e = max (k - 52) (- 1074)"
  define y where "y = q / 2 powi e"
  define m where "m = py_round y"
  from ilog2_bounds[OF qpos] have b: "2 powi k \<le> q" "q < 2 powi (k + 1)"
    by (simp_all add: k_def)
  have "(2::rat) powi 1024 < 2 powi (k + 1)" using assms b(2) by simp
  then have k: "1024 < k + 1" by (rule pow2_less_imp)
  then have e: "e = k - 52" by (simp add: e_def)
  have p: "(0::rat) < 2 powi e" by simp
  have "2 powi k / 2 powi e \<le> y" unfolding y_def using b(1) p
    by (simp add: divide_right_mono)
  then have "rat_of_int (2 ^ 52) \<le> y" by (simp add: pow2_div e)
  then have "2 ^ 52 \<le> m" unfolding m_def by (rule py_round_ge)
  then have "rat_of_int (2 ^ 52) \<le> rat_of_int m" by (simp only: of_int_le_iff)
  then have le: "rat_of_int (2 ^ 52) * 2 powi e \<le> rat_of_int m * 2 powi e"
    using p by (simp add: mult_right_mono)
  have "(2::rat) ^ 1024 = 2 powi 1024" by simp
  also have "\<dots> \<le> 2 powi k" using k by (intro power_int_increasing) simp_all
  also have "\<dots> = rat_of_int (2 ^ 52) * 2 powi e"
    using pow2_mult[of 52 e] by (simp add: e)
  also note le
  finally have "2 ^ 1024 \<le> rat_of_int m * 2 powi e" .
  then show ?thesis using qpos
    by (simp add: round_mag_def Let_def k_def e_def y_def m_def)
qed

lemma py_round_numeral: "py_round (numeral n) = numeral n"
  using py_round_of_int[of "numeral n"] by simp

lemma py_round_0: "py_round 0 = 0"
  using py_round_of_int[of 0] by simp

lemma py_round_1: "py_round 1 = 1"
  using py_round_of_int[of 1] by simp

lemma round_mag_0: "round_mag 0 = Some 0"
  by (simp add: round_mag_def)

lemma round_mag_None_D: "round_mag q = None \<Longrightarrow> max_double < q"
  using round_mag_finite[of q] by force

lemma pow10_nonneg: "0 \<le> scale \<Longrightarrow> pow10 scale = Inr (PyInt (10 ^ nat scale))"
  by (simp add: pow10_def)

lemma int_to_float_pow10:
  "int_to_float (10 ^ n) =
     (case round_mag (10 ^ n) of None \<Rightarrow> Inl int_too_large_error | Some f \<Rightarrow> Inr (Fin f))"
proof -
  have "\<not> (10::int) ^ n < 0" by (simp add: not_less)
  then show ?thesis
    by (simp add: int_to_float_def int_too_large_error_def split: option.splits)
qed

lemma float_mul_nonneg:
  "0 \<le> a \<Longrightarrow> 0 \<le> f \<Longrightarrow> float_mul (Fin a) (Fin f) = mk_float False (round_mag (a * f))"
  by (simp add: float_mul_def)

lemma round_float_mk_float:
  "round_float (mk_float False r) =
     (case r of None \<Rightarrow> Inl infinity_error | Some p \<Rightarrow> Inr (py_round p))"
  by (simp add: mk_float_def infinity_error_def py_round_0 split: option.splits)

lemma float_to_fixed_Fin:
  assumes "0 \<le> scale"
  shows "float_to_fixed (Fin q) scale =
     (case round_mag (10 ^ nat scale) of
        None \<Rightarrow> Inl int_too_large_error
      | Some f \<Rightarrow>
          (case round_mag (\<bar>q\<bar> * f) of
             None \<Rightarrow> Inl infinity_error
           | Some p \<Rightarrow> Inr (if q < 0 then 1 else 0, py_round p)))"
proof (cases "round_mag (10 ^ nat scale)")
  case None
  then show ?thesis using assms
    by (simp add: float_to_fixed_def pow10_nonneg int_to_float_pow10)
next
  case (Some f)
  then have f: "0 \<le> f" by (rule round_mag_nonneg)
  show ?thesis using assms Some f
    by (simp add: float_to_fixed_def pow10_nonneg int_to_float_pow10 float_mul_nonneg
        round_float_mk_float split: option.splits)
qed

lemma float_to_fixed_NegZero:
  assumes "0 \<le> scale"
  shows "float_to_fixed NegZero scale =
     (case round_mag (10 ^ nat scale) of
        None \<Rightarrow> Inl int_too_large_error
      | Some f \<Rightarrow> Inr (0, 0))"
proof (cases "round_mag (10 ^ nat scale)")
  case None
  then show ?thesis using assms
    by (simp add: float_to_fixed_def pow10_nonneg int_to_float_pow10)
next
  case (Some f)
  then have f: "0 \<le> f" by (rule round_mag_nonneg)
  show ?thesis using assms Some f
    by (simp add: float_to_fixed_def pow10_nonneg int_to_float_pow10 float_mul_nonneg
        round_float_mk_float round_mag_0 py_round_0 split: option.splits)
qed

lemma round_mag_1: "round_mag 1 = Some 1"
  by (subst round_mag_known[where k = 0]) (simp_all add: py_round_numeral)

lemma round_mag_100: "round_mag 100 = Some 100"
  by (subst round_mag_known[where k = 6]) (simp_all add: py_round_numeral)

lemma round_mag_2e19: "round_mag 20000000000000000000 = Some 20000000000000000000"
  by (subst round_mag_known[where k = 64]) (simp_all add: py_round_numeral)

lemma pow10_overflow: "309 \<le> n \<Longrightarrow> round_mag (10 ^ n) = None"
proof (rule round_mag_overflow)
  assume "309 \<le> n"
  then have "(10::rat) ^ 309 \<le> 10 ^ n" by (intro power_increasing) simp_all
  moreover have "(2::rat) ^ 1024 \<le> 10 ^ 309" by simp
  ultimately show "(2::rat) ^ 1024 \<le> 10 ^ n" by (rule order_trans[rotated])
qed

lemma pow10_finite: "n \<le> 308 \<Longrightarrow> \<exists>f. round_mag (10 ^ n) = Some f"
proof (rule round_mag_finite)
  assume "n \<le> 308"
  then have "(10::rat) ^ n \<le> 10 ^ 308" by (intro power_increasing) simp_all
  moreover have "(10::rat) ^ 308 \<le> max_double" by (simp add: max_double_def)
  ultimately show "(10::rat) ^ n \<le> max_double" by (rule order_trans)
qed

lemma float_to_fixed_scale_overflow:
  "309 \<le> scale \<Longrightarrow> float_to_fixed (Fin q) scale = Inl int_too_large_error"
  using pow10_overflow[of "nat scale"] by (simp add: float_to_fixed_Fin)

lemma round_mag_f32_1005: "round_mag (8430551 / 8388608 * 100) = Some (8430551 / 8388608 * 100)"
  by (subst round_mag_known[where k = 6]) (simp_all add: py_round_numeral)

lemma py_round_1005: "py_round (8430551 / 8388608 * 100) = 100"
  by (rule py_round_near) simp

lemma round_mag_0015: "round_mag (1080863910568919 / 72057594037927936 * 100) = Some (3 / 2)"
proof -
  have "py_round (27021597764222975 / 4) = 6755399441055744"
    by (rule py_round_near) simp
  then show ?thesis
    by (subst round_mag_known[where k = 0]) simp_all
qed

lemma py_round_three_halves: "py_round (3 / 2) = 2"
  using py_round_tie[of "3/2" 1] by simp

lemma int_to_float_nonneg:
  "0 \<le> n \<Longrightarrow> int_to_float n =
     (case round_mag (rat_of_int n) of None \<Rightarrow> Inl int_too_large_error | Some f \<Rightarrow> Inr (Fin f))"
  by (simp add: int_to_float_def int_too_large_error_def not_less[symmetric] split: option.splits)

lemma float_times_Fin:
  assumes "0 \<le> a"
  shows "float_times (Fin a) (PyInt (10 ^ n)) =
     (case round_mag (10 ^ n) of
        None \<Rightarrow> Inl int_too_large_error
      | Some f \<Rightarrow> Inr (mk_float False (round_mag (a * f))))"
proof (cases "round_mag (10 ^ n)")
  case None
  then show ?thesis by (simp add: int_to_float_pow10)
next
  case (Some f)
  then have "0 \<le> f" by (rule round_mag_nonneg)
  then show ?thesis using Some assms by (simp add: int_to_float_pow10 float_mul_nonneg)
qed

lemma mk_float_Fin_D:
  "mk_float False r = Fin p \<Longrightarrow> r = Some p"
  by (auto simp: mk_float_def split: option.splits if_splits)

lemma float_times_Fin_D:
  assumes "0 \<le> a" and "float_times (Fin a) (PyInt (10 ^ n)) = Inr (Fin p)"
  shows "\<exists>f. round_mag (10 ^ n) = Some f \<and> round_mag (a * f) = Some p"
  using assms(2) unfolding float_times_Fin[OF assms(1)]
  by (auto split: option.splits dest: mk_float_Fin_D)

lemma float_abs_finite: "is_finite x \<Longrightarrow> float_abs x = Fin (mag_of x)"
  by (cases x) simp_all

lemma float_lt_zero_Fin: "float_lt_zero (Fin q) = (q < 0)"
  by simp

lemma float_to_fixed_finite:
  assumes "0 \<le> scale" "is_finite x"
  shows "float_to_fixed x scale =
     (case round_mag (10 ^ nat scale) of
        None \<Rightarrow> Inl int_too_large_error
      | Some f \<Rightarrow>
          (case round_mag (mag_of x * f) of
             None \<Rightarrow> Inl infinity_error
           | Some p \<Rightarrow> Inr (if float_lt_zero x then 1 else 0, py_round p)))"
proof (cases x)
  case (Fin q)
  then show ?thesis using assms(1) by (simp add: float_to_fixed_Fin split: option.splits)
next
  case NegZero
  then show ?thesis using assms(1)
    by (simp add: float_to_fixed_NegZero round_mag_0 py_round_0 split: option.splits)
qed (use assms in simp_all)

section \<open>Facts about the exceptions of the codec\<close>

lemma round_float_nonfinite:
  "\<not> is_finite p \<Longrightarrow> round_float p = Inl (if p = NaN then nan_error else infinity_error)"
  by (cases p) (simp_all add: nan_error_def infinity_error_def)

lemma float_mul_nonfinite: "\<not> is_finite x \<Longrightarrow> \<not> is_finite (float_mul x y)"
  by (cases x; cases y) (auto simp: float_mul_def mk_float_def)

lemma float_mul_NaN: "float_mul NaN y = NaN"
  by (simp add: float_mul_def)

lemma float_mul_PInf_pos: "0 < f \<Longrightarrow> float_mul PInf (Fin f) = PInf"
  by (simp add: float_mul_def mk_float_def)

lemma float_abs_nonfinite:
  "\<not> is_finite x \<Longrightarrow> float_abs x = (if x = NaN then NaN else PInf)"
  by (cases x) simp_all

lemma int_to_float_error: "int_to_float n = Inl e \<Longrightarrow> e = int_too_large_error"
  by (auto simp: int_to_float_def int_too_large_error_def split: option.splits)

lemma pow10_error: "pow10 scale = Inl e \<Longrightarrow> e = int_too_large_error"
  by (auto simp: pow10_def split: if_splits sum.splits dest: int_to_float_error)

lemma float_times_error: "float_times x factor = Inl e \<Longrightarrow> e = int_too_large_error"
  by (cases factor) (auto split: sum.splits dest: int_to_float_error)

lemma round_float_error:
  "round_float p = Inl e \<Longrightarrow> e = nan_error \<or> e = infinity_error"
  by (cases p) (auto simp: nan_error_def infinity_error_def)

lemma float_to_fixed_error_kinds:
  assumes "float_to_fixed x scale = Inl e"
  shows "e \<in> {nan_error, infinity_error, int_too_large_error}"
  using assms
  by (auto simp: float_to_fixed_def Let_def split: sum.splits
      dest: pow10_error float_times_error round_float_error)

lemma float_times_nonfinite:
  assumes "\<not> is_finite x"
  shows "float_times x factor = Inl int_too_large_error \<or>
         (\<exists>p. float_times x factor = Inr p \<and> \<not> is_finite p)"
proof (cases factor)
  case (PyInt n)
  show ?thesis
  proof (cases "int_to_float n")
    case (Inl e)
    then show ?thesis using PyInt int_to_float_error[OF Inl] by simp
  next
    case (Inr y)
    then show ?thesis using PyInt float_mul_nonfinite[OF assms] by simp
  qed
next
  case (PyFloat y)
  then show ?thesis using float_mul_nonfinite[OF assms] by simp
qed

lemma float_to_fixed_nonfinite_fails:
  assumes "\<not> is_finite x"
  shows "\<exists>e. float_to_fixed x scale = Inl e"
proof (cases "pow10 scale")
  case (Inl e)
  then show ?thesis by (simp add: float_to_fixed_def)
next
  case (Inr factor)
  have a: "\<not> is_finite (float_abs x)" using assms by (cases x) simp_all
  from float_times_nonfinite[OF a, of factor] show ?thesis
  proof
    assume "float_times (float_abs x) factor = Inl int_too_large_error"
    then show ?thesis using Inr by (simp add: float_to_fixed_def)
  next
    assume "\<exists>p. float_times (float_abs x) factor = Inr p \<and> \<not> is_finite p"
    then obtain p where "float_times (float_abs x) factor = Inr p" "\<not> is_finite p" by blast
    then show ?thesis using Inr by (simp add: float_to_fixed_def round_float_nonfinite)
  qed
qed

lemma round_mag_pos:
  assumes "1 \<le> q" and "round_mag q = Some r"
  shows "0 < r"
proof -
  have qpos: "0 < q" using assms(1) by simp
  define k where "k = ilog2 q"
  define e where "e = max (k - 52) (- 1074)"
  define y where "y = q / 2 powi e"
  define m where "m = py_round y"
  from ilog2_bounds[OF qpos] have b: "2 powi k \<le> q" "q < 2 powi (k + 1)"
    by (simp_all add: k_def)
  have "(2::rat) powi 0 < 2 powi (k + 1)" using assms(1) b(2) by simp
  then have k: "0 < k + 1" by (rule pow2_less_imp)
  then have e: "e = k - 52" by (simp add: e_def)
  have p: "(0::rat) < 2 powi e" by simp
  have "2 powi k / 2 powi e \<le> y" unfolding y_def using b(1) p
    by (simp add: divide_right_mono)
  then have "rat_of_int (2 ^ 52) \<le> y" by (simp add: pow2_div e)
  then have "2 ^ 52 \<le> m" unfolding m_def by (rule py_round_ge)
  then have "0 < m" by simp
  then have "0 < rat_of_int m * 2 powi e" using p by simp
  moreover have "r = rat_of_int m * 2 powi e"
    using assms(2) qpos
    by (simp add: round_mag_def Let_def k_def e_def y_def m_def split: if_splits)
  ultimately show ?thesis by simp
qed

lemma float_to_fixed_nonfinite_small_scale:
  assumes "\<not> is_finite x" and "0 \<le> scale" and "scale \<le> 308"
  shows "float_to_fixed x scale = Inl (if x = NaN then nan_error else infinity_error)"
proof -
  from assms have "nat scale \<le> 308" by simp
  from pow10_finite[OF this] obtain f where f: "round_mag (10 ^ nat scale) = Some f" ..
  have "(1::rat) \<le> 10 ^ nat scale" by simp
  from round_mag_pos[OF this f] have fpos: "0 < f" .
  have t: "float_times (float_abs x) (PyInt (10 ^ nat scale)) = Inr (float_mul (float_abs x) (Fin f))"
    using f by (simp add: int_to_float_pow10)
  show ?thesis
  proof (cases "x = NaN")
    case True
    then show ?thesis using assms(2) t
      by (simp add: float_to_fixed_def pow10_nonneg float_mul_NaN nan_error_def)
  next
    case False
    then have "float_abs x = PInf" using assms(1) by (simp add: float_abs_nonfinite)
    then show ?thesis using assms(2) t False fpos
      by (simp add: float_to_fixed_def pow10_nonneg float_mul_PInf_pos infinity_error_def)
  qed
qed

section \<open>Facts about the conversion loops\<close>

lemma first_error_append:
  "first_error (xs @ ys) scale =
     (case first_error xs scale of Some e \<Rightarrow> Some e | None \<Rightarrow> first_error ys scale)"
  by (induction xs) (auto split: sum.splits)

lemma first_error_None_iff:
  "first_error xs scale = None \<longleftrightarrow> (\<forall>x\<in>set xs. \<exists>r. float_to_fixed x scale = Inr r)"
  by (induction xs) (auto split: sum.splits)

lemma first_error_Some_index:
  assumes "i < length xs" and "float_to_fixed (xs ! i) scale = Inl e"
    and "\<forall>j<i. \<exists>r. float_to_fixed (xs ! j) scale = Inr r"
  shows "first_error xs scale = Some e"
  using assms
proof (induction xs arbitrary: i)
  case Nil
  then show ?case by simp
next
  case (Cons x xs)
  show ?case
  proof (cases i)
    case 0
    with Cons.prems show ?thesis by simp
  next
    case (Suc k)
    with Cons.prems have "\<exists>r. float_to_fixed x scale = Inr r" by auto
    moreover have "first_error xs scale = Some e"
    proof (rule Cons.IH[of k])
      show "k < length xs" using Cons.prems Suc by simp
      show "float_to_fixed (xs ! k) scale = Inl e" using Cons.prems Suc by simp
      show "\<forall>j<k. \<exists>r. float_to_fixed (xs ! j) scale = Inr r"
      proof (intro allI impI)
        fix j assume "j < k"
        then have "Suc j < i" using Suc by simp
        with Cons.prems(3) have "\<exists>r. float_to_fixed ((x # xs) ! Suc j) scale = Inr r" by blast
        then show "\<exists>r. float_to_fixed (xs ! j) scale = Inr r" by simp
      qed
    qed
    ultimately show ?thesis by auto
  qed
qed

lemma first_error_Some_member:
  "first_error xs scale = Some e \<Longrightarrow> \<exists>x\<in>set xs. float_to_fixed x scale = Inl e"
  by (induction xs) (auto split: sum.splits)

lemma values_loop_eq:
  "values_loop vals scale signs mags =
     (case first_error vals scale of
        Some e \<Rightarrow> Inl e
      | None \<Rightarrow> Inr (signs @ map (sign_of_value scale) vals,
                     mags @ map (mag_of_value scale) vals))"
  by (induction vals arbitrary: signs mags)
     (auto simp: sign_of_value_def mag_of_value_def split: sum.splits option.splits)

lemma convert_loop_eq:
  "convert_loop ws scale converted =
     (case first_error (concat (map layer_values ws)) scale of
        Some e \<Rightarrow> Inl e
      | None \<Rightarrow> Inr (converted @ map (fixed_layer_of scale) ws))"
proof (induction ws arbitrary: converted)
  case Nil
  then show ?case by simp
next
  case (Cons layer rest)
  show ?case
    by (simp add: Cons.IH values_loop_eq first_error_append layer_values_def fixed_layer_of_def
        split: option.splits)
qed

lemma convert_weights_to_fixed_eq:
  "convert_weights_to_fixed ws scale =
     (case first_error (concat (map layer_values ws)) scale of
        Some e \<Rightarrow> Inl e
      | None \<Rightarrow> Inr (map (fixed_layer_of scale) ws))"
  by (simp add: convert_weights_to_fixed_def convert_loop_eq split: option.splits)

lemma codec_value:
  "float_to_fixed x scale = Inr r \<Longrightarrow>
   float_to_fixed x scale = Inr (sign_of_value scale x, mag_of_value scale x)"
  by (simp add: sign_of_value_def mag_of_value_def)

lemma row_major_index:
  assumes "i < rows" and "j < cols"
  shows "i * cols + j < rows * (cols::nat)"
proof -
  have "i * cols + j < i * cols + cols" using assms(2) by simp
  also have "\<dots> = Suc i * cols" by simp
  also have "\<dots> \<le> rows * cols" using assms(1) by (intro mult_le_mono1) simp
  finally show ?thesis .
qed

lemma round_mag_10: "round_mag 10 = Some 10"
  by (subst round_mag_known[where k = 3]) (simp_all add: py_round_numeral)

lemma round_mag_200: "round_mag 200 = Some 200"
  by (subst round_mag_known[where k = 7]) (simp_all add: py_round_numeral)

lemma round_mag_50: "round_mag 50 = Some 50"
  by (subst round_mag_known[where k = 5]) (simp_all add: py_round_numeral)

lemma float_to_fixed_f32_1005: "float_to_fixed (Fin (8430551 / 8388608)) 2 = Inr (0, 100)"
  using round_mag_100 round_mag_f32_1005 py_round_1005 by (simp add: float_to_fixed_Fin)

lemma float_to_fixed_minus_2: "float_to_fixed (Fin (- 2)) 2 = Inr (1, 200)"
  using round_mag_100 round_mag_200 by (simp add: float_to_fixed_Fin py_round_numeral)

lemma float_to_fixed_half: "float_to_fixed (Fin (1 / 2)) 2 = Inr (0, 50)"
  using round_mag_100 round_mag_50 by (simp add: float_to_fixed_Fin py_round_numeral)

lemma float_to_fixed_NaN_0: "float_to_fixed NaN 0 = Inl nan_error"
  using float_to_fixed_nonfinite_small_scale[of NaN 0] by simp

lemma float_to_fixed_PInf_0: "float_to_fixed PInf 0 = Inl infinity_error"
  using float_to_fixed_nonfinite_small_scale[of PInf 0] by simp

lemma float_to_fixed_Fin_0_0: "float_to_fixed (Fin 0) 0 = Inr (0, 0)"
  by (simp add: float_to_fixed_Fin round_mag_1 round_mag_0 py_round_0)

lemma float_to_fixed_huge: "float_to_fixed (Fin (2 ^ 1023)) 1 = Inl infinity_error"
proof -
  have "round_mag (2 ^ 1023 * 10) = None" by (rule round_mag_overflow) simp
  then show ?thesis using round_mag_10 by (simp add: float_to_fixed_Fin)
qed

lemma fixed_layer_of_facts:
  assumes "\<forall>x\<in>set (layer_values l). \<exists>r. float_to_fixed x scale = Inr r"
  shows "fx_layerName (fixed_layer_of scale l) = layerName l"
    and "fx_shape (fx_kernel (fixed_layer_of scale l)) = shape (kernel l)"
    and "fx_shape (fx_bias (fixed_layer_of scale l)) = shape (bias l)"
    and "length (magnitude (fx_kernel (fixed_layer_of scale l))) = length (flatten (data (kernel l)))"
    and "length (sign (fx_kernel (fixed_layer_of scale l))) = length (flatten (data (kernel l)))"
    and "length (magnitude (fx_bias (fixed_layer_of scale l))) = length (flatten (data (bias l)))"
    and "length (sign (fx_bias (fixed_layer_of scale l))) = length (flatten (data (bias l)))"
    and "\<forall>i<length (flatten (data (kernel l))).
           float_to_fixed (flatten (data (kernel l)) ! i) scale =
           Inr (sign (fx_kernel (fixed_layer_of scale l)) ! i,
                magnitude (fx_kernel (fixed_layer_of scale l)) ! i)"
    and "\<forall>i<length (flatten (data (bias l))).
           float_to_fixed (flatten (data (bias l)) ! i) scale =
           Inr (sign (fx_bias (fixed_layer_of scale l)) ! i,
                magnitude (fx_bias (fixed_layer_of scale l)) ! i)"
proof -
  show "\<forall>i<length (flatten (data (kernel l))).
           float_to_fixed (flatten (data (kernel l)) ! i) scale =
           Inr (sign (fx_kernel (fixed_layer_of scale l)) ! i,
                magnitude (fx_kernel (fixed_layer_of scale l)) ! i)"
  proof (intro allI impI)
    fix i assume i: "i < length (flatten (data (kernel l)))"
    then have "flatten (data (kernel l)) ! i \<in> set (layer_values l)"
      by (simp add: layer_values_def)
    with assms obtain r where "float_to_fixed (flatten (data (kernel l)) ! i) scale = Inr r"
      by blast
    from codec_value[OF this] show "float_to_fixed (flatten (data (kernel l)) ! i) scale =
           Inr (sign (fx_kernel (fixed_layer_of scale l)) ! i,
                magnitude (fx_kernel (fixed_layer_of scale l)) ! i)"
      using i by (simp add: fixed_layer_of_def)
  qed
  show "\<forall>i<length (flatten (data (bias l))).
           float_to_fixed (flatten (data (bias l)) ! i) scale =
           Inr (sign (fx_bias (fixed_layer_of scale l)) ! i,
                magnitude (fx_bias (fixed_layer_of scale l)) ! i)"
  proof (intro allI impI)
    fix i assume i: "i < length (flatten (data (bias l)))"
    then have "flatten (data (bias l)) ! i \<in> set (layer_values l)"
      by (simp add: layer_values_def)
    with assms obtain r where "float_to_fixed (flatten (data (bias l)) ! i) scale = Inr r"
      by blast
    from codec_value[OF this] show "float_to_fixed (flatten (data (bias l)) ! i) scale =
           Inr (sign (fx_bias (fixed_layer_of scale l)) ! i,
                magnitude (fx_bias (fixed_layer_of scale l)) ! i)"
      using i by (simp add: fixed_layer_of_def)
  qed
qed (simp_all add: fixed_layer_of_def)

lemma dense_layer_lengths:
  assumes "dense_layer l rows cols"
  shows "shape (kernel l) = [rows, cols]"
    and "length (flatten (data (kernel l))) = rows * cols"
    and "length (flatten (data (bias l))) = cols"
    and "item2 (data (kernel l)) i j = flatten (data (kernel l)) ! (i * cols + j)"
  using assms by (simp_all add: dense_layer_def wf_ndarray_def flatten_def item2_def)

section \<open>The codec on finite values\<close>

text \<open>
  C1, as the code has it. For a finite \<open>x\<close> and \<open>scale \<ge> 0\<close>: whenever the product
  \<open>abs(x) * 10 ** scale\<close> is a finite float \<open>p\<close>, the codec returns the sign \<open>1\<close> if
  \<open>x < 0\<close> and \<open>0\<close> otherwise, and the magnitude \<open>round(p)\<close>, rounded half to even, which
  is not negative. The product is a float product: it is \<open>|x| * 10^scale\<close> itself when
  \<open>10^scale\<close> and \<open>|x| * 10^scale\<close> are floats, and then the magnitude is
  \<open>round(|x| * 10^scale)\<close>. From scale 309 on, and when the product is infinite, the
  codec raises \<open>OverflowError\<close>.
\<close>

theorem float_to_fixed_sign_magnitude:
  assumes "0 \<le> scale" and "is_finite x"
  shows "(\<forall>p. float_times (float_abs x) (PyInt (10 ^ nat scale)) = Inr (Fin p) \<longrightarrow>
            float_to_fixed x scale = Inr (if float_lt_zero x then 1 else 0, py_round p) \<and>
            0 \<le> py_round p) \<and>
         (is_double (10 ^ nat scale) \<and> is_double (mag_of x * 10 ^ nat scale) \<longrightarrow>
            float_to_fixed x scale =
              Inr (if float_lt_zero x then 1 else 0, py_round (mag_of x * 10 ^ nat scale))) \<and>
         (309 \<le> scale \<longrightarrow> float_to_fixed x scale = Inl int_too_large_error) \<and>
         (float_times (float_abs x) (PyInt (10 ^ nat scale)) = Inr PInf \<longrightarrow>
            float_to_fixed x scale = Inl infinity_error)"
proof (intro conjI allI impI)
  fix p
  assume h: "float_times (float_abs x) (PyInt (10 ^ nat scale)) = Inr (Fin p)"
  have m: "0 \<le> mag_of x" by (cases x) simp_all
  from h have "float_times (Fin (mag_of x)) (PyInt (10 ^ nat scale)) = Inr (Fin p)"
    using assms(2) by (simp only: float_abs_finite)
  from float_times_Fin_D[OF m this] obtain f where f: "round_mag (10 ^ nat scale) = Some f"
    and p: "round_mag (mag_of x * f) = Some p"
    by blast
  show "float_to_fixed x scale = Inr (if float_lt_zero x then 1 else 0, py_round p)"
    using assms f p by (simp add: float_to_fixed_finite)
  from p have "0 \<le> p" by (rule round_mag_nonneg)
  then show "0 \<le> py_round p" by (rule py_round_nonneg)
next
  assume "is_double (10 ^ nat scale) \<and> is_double (mag_of x * 10 ^ nat scale)"
  then show "float_to_fixed x scale =
      Inr (if float_lt_zero x then 1 else 0, py_round (mag_of x * 10 ^ nat scale))"
    using assms by (simp add: float_to_fixed_finite is_double_def)
next
  assume "309 \<le> scale"
  then have "309 \<le> nat scale" by simp
  from pow10_overflow[OF this] show "float_to_fixed x scale = Inl int_too_large_error"
    using assms by (simp add: float_to_fixed_finite)
next
  assume "float_times (float_abs x) (PyInt (10 ^ nat scale)) = Inr PInf"
  then show "float_to_fixed x scale = Inl infinity_error"
    using assms(1) by (simp add: float_to_fixed_def pow10_nonneg infinity_error_def)
qed

theorem float_to_fixed_sign_magnitude_witness:
  "(0::int) \<le> 2 \<and> is_finite (Fin (8430551 / 8388608)) \<and>
   float_times (float_abs (Fin (8430551 / 8388608))) (PyInt (10 ^ nat 2)) =
     Inr (Fin (8430551 / 8388608 * 100)) \<and>
   is_double (10 ^ nat 2) \<and> is_double (mag_of (Fin (8430551 / 8388608)) * 10 ^ nat 2) \<and>
   float_to_fixed (Fin (8430551 / 8388608)) 2 = Inr (0, 100) \<and>
   (309::int) \<le> 309 \<and> is_finite (Fin 1) \<and>
   float_to_fixed (Fin 1) 309 = Inl int_too_large_error \<and>
   (0::int) \<le> 1 \<and> is_finite (Fin (2 ^ 1023)) \<and>
   float_times (float_abs (Fin (2 ^ 1023))) (PyInt (10 ^ nat 1)) = Inr PInf \<and>
   float_to_fixed (Fin (2 ^ 1023)) 1 = Inl infinity_error"
proof -
  have a: "is_double (10 ^ nat 2)"
    using round_mag_100 by (simp add: is_double_def)
  have b: "is_double (mag_of (Fin (8430551 / 8388608)) * 10 ^ nat 2)"
    using round_mag_f32_1005 by (simp add: is_double_def)
  have c: "float_times (float_abs (Fin (8430551 / 8388608))) (PyInt (10 ^ nat 2)) =
     Inr (Fin (8430551 / 8388608 * 100))"
    using round_mag_100 round_mag_f32_1005
    by (simp add: int_to_float_nonneg float_mul_def mk_float_def)
  from float_to_fixed_sign_magnitude[of 2 "Fin (8430551 / 8388608)"] a b
  have "float_to_fixed (Fin (8430551 / 8388608)) 2 =
      Inr (0, py_round (mag_of (Fin (8430551 / 8388608)) * 10 ^ nat 2))"
    by simp
  then have d: "float_to_fixed (Fin (8430551 / 8388608)) 2 = Inr (0, 100)"
    using py_round_1005 by simp
  from float_to_fixed_sign_magnitude[of 309 "Fin 1"]
  have e: "float_to_fixed (Fin 1) 309 = Inl int_too_large_error"
    by simp
  have "round_mag (2 ^ 1023 * 10) = None" by (rule round_mag_overflow) simp
  then have f: "float_times (float_abs (Fin (2 ^ 1023))) (PyInt (10 ^ nat 1)) = Inr PInf"
    using round_mag_10
    by (simp add: int_to_float_nonneg float_mul_def mk_float_def)
  from float_to_fixed_sign_magnitude[of 1 "Fin (2 ^ 1023)"] f
  have g: "float_to_fixed (Fin (2 ^ 1023)) 1 = Inl infinity_error"
    by simp
  from a b c d e f g show ?thesis by simp
qed

text \<open>
  C1 as stated fails inside the range of the floats. The float nearest to \<open>0.015\<close> is
  \<open>1080863910568919 / 2^56\<close>, a little less than \<open>0.015\<close>; its float product with \<open>100\<close>
  is exactly \<open>1.5\<close>, and the codec returns the magnitude \<open>2\<close>, while \<open>|x| * 10^scale\<close> is
  less than \<open>1.5\<close> and rounds to \<open>1\<close>.
\<close>

theorem float_to_fixed_inexact_product_counterexample:
  "is_double (1080863910568919 / 72057594037927936) \<and>
   float_to_fixed (Fin (1080863910568919 / 72057594037927936)) 2 = Inr (0, 2) \<and>
   py_round (1080863910568919 / 72057594037927936 * 100) = 1"
proof -
  have "round_mag (1080863910568919 / 72057594037927936) =
      Some (1080863910568919 / 72057594037927936)"
    by (subst round_mag_known[where k = "- 7"]) (simp_all add: py_round_numeral)
  then have a: "is_double (1080863910568919 / 72057594037927936)"
    by (simp add: is_double_def)
  have b: "py_round (1080863910568919 / 72057594037927936 * 100) = 1"
    by (rule py_round_near) simp
  have c: "float_to_fixed (Fin (1080863910568919 / 72057594037927936)) 2 = Inr (0, 2)"
    using round_mag_0015 round_mag_100 py_round_three_halves
    by (simp add: float_to_fixed_Fin)
  from a b c show ?thesis by blast
qed

text \<open>
  C4, as the code has it. For \<open>0 \<le> scale \<le> 308\<close> both \<open>-0.0\<close> and \<open>0.0\<close> give the
  magnitude \<open>0\<close> and the sign \<open>0\<close>: \<open>x < 0\<close> is false for a negative zero.
\<close>

theorem float_to_fixed_zero:
  assumes "0 \<le> scale" and "scale \<le> 308"
  shows "float_to_fixed NegZero scale = Inr (0, 0) \<and> float_to_fixed (Fin 0) scale = Inr (0, 0)"
proof -
  from assms have "nat scale \<le> 308" by simp
  from pow10_finite[OF this] obtain f where "round_mag (10 ^ nat scale) = Some f" ..
  then show ?thesis using assms(1)
    by (simp add: float_to_fixed_NegZero float_to_fixed_Fin round_mag_0 py_round_0)
qed

theorem float_to_fixed_zero_witness:
  "(0::int) \<le> 2 \<and> (2::int) \<le> 308 \<and>
   float_to_fixed NegZero 2 = Inr (0, 0) \<and> float_to_fixed (Fin 0) 2 = Inr (0, 0)"
  using float_to_fixed_zero[of 2] by simp

text \<open>C4 as stated fails: the sign of \<open>-0.0\<close> is \<open>0\<close>, not \<open>1\<close>.\<close>

theorem float_to_fixed_negative_zero_counterexample:
  "float_to_fixed NegZero 0 = Inr (0, 0)"
  by (simp add: float_to_fixed_NegZero round_mag_1)

text \<open>
  C8, as the code has it. The codec has no check of the width of the magnitude. For a
  finite \<open>x\<close> and \<open>scale \<ge> 0\<close>: when the product \<open>abs(x) * 10 ** scale\<close> is a finite
  float of at least \<open>2^64\<close>, the codec returns a magnitude of at least \<open>2^64\<close>; and when
  the codec raises, it is \<open>OverflowError\<close>, because \<open>10^scale\<close> or the product is beyond
  the largest float.
\<close>

theorem float_to_fixed_no_width_check:
  assumes "0 \<le> scale" and "is_finite x"
  shows "(\<forall>p. float_times (float_abs x) (PyInt (10 ^ nat scale)) = Inr (Fin p) \<and> 2 ^ 64 \<le> p \<longrightarrow>
            (\<exists>m. float_to_fixed x scale = Inr (if float_lt_zero x then 1 else 0, m) \<and>
                 2 ^ 64 \<le> m)) \<and>
         (\<forall>e. float_to_fixed x scale = Inl e \<longrightarrow>
            (e = int_too_large_error \<and> max_double < 10 ^ nat scale) \<or>
            (e = infinity_error \<and>
             (\<exists>f. round_mag (10 ^ nat scale) = Some f \<and> max_double < mag_of x * f)))"
proof (intro conjI allI impI)
  fix p
  assume h: "float_times (float_abs x) (PyInt (10 ^ nat scale)) = Inr (Fin p) \<and> 2 ^ 64 \<le> p"
  have m: "0 \<le> mag_of x" by (cases x) simp_all
  from h have "float_times (Fin (mag_of x)) (PyInt (10 ^ nat scale)) = Inr (Fin p)"
    using assms(2) by (simp only: float_abs_finite)
  from float_times_Fin_D[OF m this] obtain f where f: "round_mag (10 ^ nat scale) = Some f"
    and p: "round_mag (mag_of x * f) = Some p"
    by blast
  have r: "float_to_fixed x scale = Inr (if float_lt_zero x then 1 else 0, py_round p)"
    using assms f p by (simp add: float_to_fixed_finite)
  from h have "rat_of_int (2 ^ 64) \<le> p" by simp
  then have "2 ^ 64 \<le> py_round p" by (rule py_round_ge)
  with r show "\<exists>m. float_to_fixed x scale = Inr (if float_lt_zero x then 1 else 0, m) \<and> 2 ^ 64 \<le> m"
    by blast
next
  fix e
  assume h: "float_to_fixed x scale = Inl e"
  show "(e = int_too_large_error \<and> max_double < 10 ^ nat scale) \<or>
        (e = infinity_error \<and>
         (\<exists>f. round_mag (10 ^ nat scale) = Some f \<and> max_double < mag_of x * f))"
  proof (cases "round_mag (10 ^ nat scale)")
    case None
    then show ?thesis using h assms
      by (simp add: float_to_fixed_finite round_mag_None_D)
  next
    case (Some f)
    then show ?thesis using h assms
      by (auto simp: float_to_fixed_finite split: option.splits dest: round_mag_None_D)
  qed
qed

theorem float_to_fixed_no_width_check_witness:
  "(0::int) \<le> 0 \<and> is_finite (Fin 20000000000000000000) \<and>
   float_times (float_abs (Fin 20000000000000000000)) (PyInt (10 ^ nat 0)) =
     Inr (Fin 20000000000000000000) \<and>
   (2::rat) ^ 64 \<le> 20000000000000000000 \<and>
   (\<exists>m. float_to_fixed (Fin 20000000000000000000) 0 = Inr (0, m) \<and> 2 ^ 64 \<le> m) \<and>
   (0::int) \<le> 309 \<and> is_finite (Fin 1) \<and>
   float_to_fixed (Fin 1) 309 = Inl int_too_large_error \<and> max_double < 10 ^ nat 309"
proof -
  have c: "float_times (float_abs (Fin 20000000000000000000)) (PyInt (10 ^ nat 0)) =
     Inr (Fin 20000000000000000000)"
    using round_mag_1 round_mag_2e19
    by (simp add: int_to_float_nonneg float_mul_def mk_float_def)
  from float_to_fixed_no_width_check[of 0 "Fin 20000000000000000000"] c
  have d: "\<exists>m. float_to_fixed (Fin 20000000000000000000) 0 = Inr (0, m) \<and> 2 ^ 64 \<le> m"
    by simp
  have e: "float_to_fixed (Fin 1) 309 = Inl int_too_large_error"
    by (rule float_to_fixed_scale_overflow) simp
  from float_to_fixed_no_width_check[of 309 "Fin 1"] e
  have "max_double < 10 ^ nat 309"
    by (simp add: int_too_large_error_def infinity_error_def)
  with c d e show ?thesis by simp
qed

text \<open>
  C8 as stated fails: \<open>2 * 10^19\<close> at scale \<open>0\<close> gives the magnitude \<open>2 * 10^19\<close>, which
  is at least \<open>2^64\<close>, and no exception.
\<close>

theorem float_to_fixed_two_pow_64_counterexample:
  "float_to_fixed (Fin 20000000000000000000) 0 = Inr (0, 20000000000000000000) \<and>
   (2::int) ^ 64 \<le> 20000000000000000000"
  by (simp add: float_to_fixed_Fin round_mag_1 round_mag_2e19 py_round_numeral)

section \<open>The conversion pass\<close>

lemma quantized_from_fixed_layer_of:
  assumes ok: "\<forall>x\<in>set (layer_values l). \<exists>r. float_to_fixed x scale = Inr r"
  shows "quantized_from scale l (fixed_layer_of scale l)"
proof -
  define q where "q = fixed_layer_of scale l"
  note f = fixed_layer_of_facts[OF ok, folded q_def]
  have dense: "fx_shape (fx_kernel q) = [rows, cols] \<and>
        length (magnitude (fx_kernel q)) = rows * cols \<and>
        length (sign (fx_kernel q)) = rows * cols \<and>
        length (magnitude (fx_bias q)) = cols \<and>
        length (sign (fx_bias q)) = cols \<and>
        (\<forall>i<rows. \<forall>j<cols.
           float_to_fixed (item2 (data (kernel l)) i j) scale =
           Inr (sign (fx_kernel q) ! (i * cols + j),
                magnitude (fx_kernel q) ! (i * cols + j)))"
    if d: "dense_layer l rows cols" for rows cols
  proof -
    note dl = dense_layer_lengths[OF d]
    have "float_to_fixed (item2 (data (kernel l)) i j) scale =
           Inr (sign (fx_kernel q) ! (i * cols + j),
                magnitude (fx_kernel q) ! (i * cols + j))"
      if "i < rows" "j < cols" for i j
    proof -
      from that have "i * cols + j < length (flatten (data (kernel l)))"
        by (simp add: dl(2) row_major_index)
      with f(8) show ?thesis by (simp add: dl(4))
    qed
    then show ?thesis using f(2,4,5,6,7) dl(1,2,3) by simp
  qed
  show ?thesis unfolding quantized_from_def q_def[symmetric]
    using f(1) f(2) f(3) f(4) f(5) f(6) f(7) f(8) f(9) dense by (intro conjI allI impI) auto
qed

lemma layer_values_dense_1:
  "layer_values dense_1 = [Fin (8430551 / 8388608), Fin (- 2), Fin (1 / 2)]"
  by (simp add: layer_values_def dense_1_def flatten_def)

lemma dense_1_ok:
  "\<forall>x\<in>set (concat (map layer_values [dense_1])). \<exists>r. float_to_fixed x 2 = Inr r"
  using float_to_fixed_f32_1005 float_to_fixed_minus_2 float_to_fixed_half
  by (simp add: layer_values_dense_1)

lemma convert_dense_1: "convert_weights_to_fixed [dense_1] 2 = Inr [fixed_dense_1]"
proof -
  have "first_error (concat (map layer_values [dense_1])) 2 = None"
    using dense_1_ok by (simp only: first_error_None_iff)
  moreover have "fixed_layer_of 2 dense_1 = fixed_dense_1"
    using float_to_fixed_f32_1005 float_to_fixed_minus_2 float_to_fixed_half
    by (simp add: fixed_layer_of_def fixed_dense_1_def dense_1_def flatten_def
        sign_of_value_def mag_of_value_def)
  ultimately show ?thesis by (simp add: convert_weights_to_fixed_eq)
qed

lemma layer_values_nan_in_bias: "layer_values nan_in_bias = [Fin 0, NaN]"
  by (simp add: layer_values_def nan_in_bias_def flatten_def)

lemma layer_values_nan_in_kernel: "layer_values nan_in_kernel = [NaN, Fin 0]"
  by (simp add: layer_values_def nan_in_kernel_def flatten_def)

lemma quantized_from_dense:
  assumes "quantized_from scale l q" and "dense_layer l rows cols"
  shows "fx_shape (fx_kernel q) = [rows, cols] \<and>
         length (magnitude (fx_kernel q)) = rows * cols \<and>
         length (sign (fx_kernel q)) = rows * cols \<and>
         length (magnitude (fx_bias q)) = cols \<and>
         length (sign (fx_bias q)) = cols"
proof -
  from assms(1) have "\<forall>rows cols. dense_layer l rows cols \<longrightarrow>
        fx_shape (fx_kernel q) = [rows, cols] \<and>
        length (magnitude (fx_kernel q)) = rows * cols \<and>
        length (sign (fx_kernel q)) = rows * cols \<and>
        length (magnitude (fx_bias q)) = cols \<and>
        length (sign (fx_bias q)) = cols \<and>
        (\<forall>i<rows. \<forall>j<cols.
           float_to_fixed (item2 (data (kernel l)) i j) scale =
           Inr (sign (fx_kernel q) ! (i * cols + j), magnitude (fx_kernel q) ! (i * cols + j)))"
    unfolding quantized_from_def by (elim conjE)
  from this[rule_format, OF assms(2)] show ?thesis by simp
qed

text \<open>
  C2. When the codec returns for every value of every layer, the conversion returns one
  converted layer per layer, in the same order, and each holds its layer flattened in
  row-major order and encoded element by element: the \<open>i\<close>-th magnitude and the \<open>i\<close>-th
  sign encode the \<open>i\<close>-th flattened element, the kernel lists of a dense layer of shape
  \<open>[rows, cols]\<close> have \<open>rows * cols\<close> entries and the bias lists \<open>cols\<close>, and the stored
  shapes are those of the layer.
\<close>

theorem convert_weights_to_fixed_flattens_in_order:
  assumes "\<forall>x\<in>set (concat (map layer_values ws)). \<exists>r. float_to_fixed x scale = Inr r"
  shows "\<exists>out. convert_weights_to_fixed ws scale = Inr out \<and> length out = length ws \<and>
           (\<forall>n<length ws. quantized_from scale (ws ! n) (out ! n))"
proof -
  define out where "out = map (fixed_layer_of scale) ws"
  have none: "first_error (concat (map layer_values ws)) scale = None"
    using assms by (simp only: first_error_None_iff)
  have res: "convert_weights_to_fixed ws scale = Inr out"
    by (simp add: convert_weights_to_fixed_eq none out_def)
  have len: "length out = length ws" by (simp add: out_def)
  have each: "quantized_from scale (ws ! n) (out ! n)" if n: "n < length ws" for n
  proof -
    have "ws ! n \<in> set ws" using n by simp
    then have "\<forall>x\<in>set (layer_values (ws ! n)). \<exists>r. float_to_fixed x scale = Inr r"
      using assms by auto
    from quantized_from_fixed_layer_of[OF this] show ?thesis using n by (simp add: out_def)
  qed
  show ?thesis using res len each by blast
qed

theorem convert_weights_to_fixed_flattens_in_order_witness:
  "layer_values dense_1 = [Fin (8430551 / 8388608), Fin (- 2), Fin (1 / 2)] \<and>
   float_to_fixed (Fin (8430551 / 8388608)) 2 = Inr (0, 100) \<and>
   float_to_fixed (Fin (- 2)) 2 = Inr (1, 200) \<and>
   float_to_fixed (Fin (1 / 2)) 2 = Inr (0, 50) \<and>
   dense_layer dense_1 2 1 \<and>
   convert_weights_to_fixed [dense_1] 2 = Inr [fixed_dense_1] \<and>
   fx_shape (fx_kernel fixed_dense_1) = [2, 1] \<and>
   length (magnitude (fx_kernel fixed_dense_1)) = 2 * 1 \<and>
   length (sign (fx_kernel fixed_dense_1)) = 2 * 1 \<and>
   length (magnitude (fx_bias fixed_dense_1)) = 1 \<and>
   length (sign (fx_bias fixed_dense_1)) = 1"
proof -
  have d: "dense_layer dense_1 2 1"
    by (simp add: dense_layer_def dense_1_def wf_ndarray_def)
  from convert_weights_to_fixed_flattens_in_order[OF dense_1_ok]
  obtain out where out: "convert_weights_to_fixed [dense_1] 2 = Inr out"
    and props: "\<forall>n<length [dense_1]. quantized_from 2 ([dense_1] ! n) (out ! n)"
    by blast
  from out have o: "out = [fixed_dense_1]" by (simp add: convert_dense_1)
  from props have "quantized_from 2 ([dense_1] ! 0) (out ! 0)" by simp
  then have q: "quantized_from 2 dense_1 fixed_dense_1" by (simp add: o)
  note lens = quantized_from_dense[OF q d]
  show ?thesis
    using layer_values_dense_1 float_to_fixed_f32_1005 float_to_fixed_minus_2
      float_to_fixed_half d out[unfolded o] lens
    by (intro conjI) simp_all
qed

text \<open>
  C9, as the code has it. When the codec raises on a value, the conversion ends with the
  exception of the first such value, in the order of the layers, kernel before bias,
  each flattened; the exception is the one the codec raised, unchanged, and nothing
  converted is returned.
\<close>

theorem convert_weights_to_fixed_first_error:
  assumes "i < length (concat (map layer_values ws))"
    and "float_to_fixed (concat (map layer_values ws) ! i) scale = Inl e"
    and "\<forall>j<i. \<exists>r. float_to_fixed (concat (map layer_values ws) ! j) scale = Inr r"
  shows "convert_weights_to_fixed ws scale = Inl e"
  using first_error_Some_index[OF assms] by (simp add: convert_weights_to_fixed_eq)

theorem convert_weights_to_fixed_first_error_witness:
  "concat (map layer_values [nan_in_bias]) = [Fin 0, NaN] \<and>
   float_to_fixed (Fin 0) 0 = Inr (0, 0) \<and>
   float_to_fixed NaN 0 = Inl nan_error \<and>
   convert_weights_to_fixed [nan_in_bias] 0 = Inl nan_error"
proof -
  have a: "1 < length (concat (map layer_values [nan_in_bias]))"
    by (simp add: layer_values_nan_in_bias)
  have b: "float_to_fixed (concat (map layer_values [nan_in_bias]) ! 1) 0 = Inl nan_error"
    by (simp add: layer_values_nan_in_bias float_to_fixed_NaN_0)
  have c: "\<forall>j<1. \<exists>r. float_to_fixed (concat (map layer_values [nan_in_bias]) ! j) 0 = Inr r"
    by (simp add: layer_values_nan_in_bias float_to_fixed_Fin_0_0)
  from convert_weights_to_fixed_first_error[OF a b c]
  show ?thesis
    by (simp add: layer_values_nan_in_bias float_to_fixed_NaN_0 float_to_fixed_Fin_0_0)
qed

text \<open>
  C9 as stated fails: the exception carries neither the name of the layer nor the index
  of the value. A NaN at index \<open>0\<close> of the kernel of layer \<open>a\<close> and a NaN in the bias of
  layer \<open>b\<close> end the conversion with one and the same exception.
\<close>

theorem convert_weights_to_fixed_error_not_annotated_counterexample:
  "convert_weights_to_fixed [nan_in_kernel] 0 =
     Inl (ValueError ''cannot convert float NaN to integer'') \<and>
   convert_weights_to_fixed [nan_in_bias] 0 =
     Inl (ValueError ''cannot convert float NaN to integer'') \<and>
   layerName nan_in_kernel = ''a'' \<and> layerName nan_in_bias = ''b'' \<and>
   flatten (data (kernel nan_in_kernel)) = [NaN] \<and> flatten (data (bias nan_in_bias)) = [NaN]"
proof -
  have "convert_weights_to_fixed [nan_in_kernel] 0 = Inl nan_error"
    by (simp add: convert_weights_to_fixed_eq layer_values_nan_in_kernel float_to_fixed_NaN_0)
  moreover have "convert_weights_to_fixed [nan_in_bias] 0 = Inl nan_error"
    by (simp add: convert_weights_to_fixed_eq layer_values_nan_in_bias float_to_fixed_NaN_0
        float_to_fixed_Fin_0_0)
  ultimately show ?thesis
    by (simp add: nan_error_def nan_in_kernel_def nan_in_bias_def flatten_def)
qed

section \<open>The layers kept by the loader\<close>

lemma layers_loop_eq:
  "layers_loop model_layers converted_weights =
     converted_weights @
     map layer_entry
       (filter (\<lambda>layer. weights layer \<noteq> [] \<and> length (get_weights layer) = 2) model_layers)"
  by (induction model_layers arbitrary: converted_weights)
     (simp_all add: Let_def layer_entry_def)

lemma load_h5_model_loaded:
  "load_h5_model (Inr model_layers) h5file =
     Inr (map layer_entry
       (filter (\<lambda>layer. weights layer \<noteq> [] \<and> length (get_weights layer) = 2) model_layers))"
  by (simp add: load_h5_model_def layers_loop_eq)

lemma layer_entry_keras_dense_1: "layer_entry keras_dense_1 = dense_1"
  by (simp add: layer_entry_def keras_dense_1_def dense_1_def get_weights_def)

text \<open>
  C6. Over the layers of a loaded model, in their order, the loader skips every layer
  with no weights and every layer whose weights are not exactly two arrays, and raises
  nothing; what it returns is the entries of the layers it keeps, in the order of the
  model. A layer with a single array is not in it.
\<close>

theorem load_h5_model_keeps_two_weight_layers:
  "load_h5_model (Inr model_layers) h5file =
     Inr (map layer_entry
       (filter (\<lambda>layer. weights layer \<noteq> [] \<and> length (get_weights layer) = 2) model_layers))"
  by (rule load_h5_model_loaded)

theorem load_h5_model_keeps_two_weight_layers_witness:
  "load_h5_model (Inr [keras_flatten, keras_dense_1, keras_no_bias]) (Inr []) = Inr [dense_1]"
proof -
  have "filter (\<lambda>layer. weights layer \<noteq> [] \<and> length (get_weights layer) = 2)
          [keras_flatten, keras_dense_1, keras_no_bias] = [keras_dense_1]"
    by (simp add: keras_flatten_def keras_dense_1_def keras_no_bias_def get_weights_def)
  with load_h5_model_keeps_two_weight_layers[of "[keras_flatten, keras_dense_1, keras_no_bias]" "Inr []"]
  show ?thesis by (simp add: layer_entry_keras_dense_1)
qed

text \<open>
  C7, as the code has it. The loader compares no shapes: every layer with exactly two
  weight arrays is kept, with the shapes its arrays have, whatever the second dimension
  of the kernel and the length of the bias are, and loading does not fail for it.
\<close>

theorem load_h5_model_no_shape_validation:
  assumes "layer \<in> set model_layers" and "weights layer = [k, b]"
  shows "\<exists>out. load_h5_model (Inr model_layers) h5file = Inr out \<and>
           \<lparr>layerName = name layer,
            kernel = \<lparr>shape = nd_shape k, data = k\<rparr>,
            bias = \<lparr>shape = nd_shape b, data = b\<rparr>\<rparr> \<in> set out"
proof -
  define kept where
    "kept = filter (\<lambda>layer. weights layer \<noteq> [] \<and> length (get_weights layer) = 2) model_layers"
  have eq: "\<lparr>layerName = name layer,
            kernel = \<lparr>shape = nd_shape k, data = k\<rparr>,
            bias = \<lparr>shape = nd_shape b, data = b\<rparr>\<rparr> = layer_entry layer"
    using assms(2) by (simp add: layer_entry_def get_weights_def)
  have "layer \<in> set kept"
    using assms by (simp add: kept_def get_weights_def)
  then have "layer_entry layer \<in> layer_entry ` set kept" by (rule imageI)
  then have mem: "layer_entry layer \<in> set (map layer_entry kept)" by simp
  have res: "load_h5_model (Inr model_layers) h5file = Inr (map layer_entry kept)"
    unfolding kept_def by (rule load_h5_model_loaded)
  show ?thesis unfolding eq using res mem by (intro exI conjI)
qed

theorem load_h5_model_no_shape_validation_witness:
  "keras_mismatch \<in> set [keras_mismatch] \<and>
   weights keras_mismatch =
     [\<lparr>nd_shape = [2, 3], nd_items = [Fin 0, Fin 0, Fin 0, Fin 0, Fin 0, Fin 0]\<rparr>,
      \<lparr>nd_shape = [5], nd_items = [Fin 0, Fin 0, Fin 0, Fin 0, Fin 0]\<rparr>] \<and>
   (\<exists>out. load_h5_model (Inr [keras_mismatch]) (Inr []) = Inr out \<and>
      \<lparr>layerName = name keras_mismatch,
       kernel = \<lparr>shape = [2, 3],
                 data = \<lparr>nd_shape = [2, 3], nd_items = [Fin 0, Fin 0, Fin 0, Fin 0, Fin 0, Fin 0]\<rparr>\<rparr>,
       bias = \<lparr>shape = [5],
               data = \<lparr>nd_shape = [5], nd_items = [Fin 0, Fin 0, Fin 0, Fin 0, Fin 0]\<rparr>\<rparr>\<rparr> \<in> set out)"
proof -
  have w: "weights keras_mismatch =
     [\<lparr>nd_shape = [2, 3], nd_items = [Fin 0, Fin 0, Fin 0, Fin 0, Fin 0, Fin 0]\<rparr>,
      \<lparr>nd_shape = [5], nd_items = [Fin 0, Fin 0, Fin 0, Fin 0, Fin 0]\<rparr>]"
    by (simp add: keras_mismatch_def)
  have m: "keras_mismatch \<in> set [keras_mismatch]" by simp
  from load_h5_model_no_shape_validation[OF m w, of "Inr []"] m w show ?thesis by simp
qed

text \<open>
  C7 as stated fails: a layer whose kernel has shape \<open>[2, 3]\<close> and whose bias has five
  elements is returned, and nothing is raised.
\<close>

theorem load_h5_model_shape_mismatch_counterexample:
  "load_h5_model (Inr [keras_mismatch]) (Inr []) = Inr [layer_entry keras_mismatch] \<and>
   shape (kernel (layer_entry keras_mismatch)) = [2, 3] \<and>
   shape (bias (layer_entry keras_mismatch)) = [5] \<and>
   length (flatten (data (bias (layer_entry keras_mismatch)))) = 5"
  by (simp add: load_h5_model_loaded layer_entry_def keras_mismatch_def get_weights_def flatten_def)

section \<open>Values that are not finite\<close>

lemma main_loaded:
  "load_h5_model loaded h5file = Inr ws \<Longrightarrow>
   main loaded h5file scale =
     (case convert_weights_to_fixed ws scale of
        Inl e \<Rightarrow> Inl e
      | Inr converted_weights \<Rightarrow> generate_move_code converted_weights scale)"
  by (simp add: main_def)

lemma layer_entry_keras_nan: "layer_entry keras_nan = nan_in_kernel"
  by (simp add: layer_entry_def keras_nan_def nan_in_kernel_def get_weights_def)

lemma load_keras_nan: "load_h5_model (Inr [keras_nan]) (Inr []) = Inr [nan_in_kernel]"
  by (simp add: load_h5_model_loaded layer_entry_keras_nan)
     (simp add: keras_nan_def get_weights_def)

lemma convert_nan_in_kernel: "convert_weights_to_fixed [nan_in_kernel] 0 = Inl nan_error"
  by (simp add: convert_weights_to_fixed_eq layer_values_nan_in_kernel float_to_fixed_NaN_0)

text \<open>
  C5, as the code has it. For a NaN or an infinity the codec raises at every scale: the
  \<open>ValueError\<close> of \<open>round\<close> on a NaN, the \<open>OverflowError\<close> of \<open>round\<close> on an infinity, or
  the \<open>OverflowError\<close> of converting \<open>10 ** scale\<close> to a float; for \<open>0 \<le> scale \<le> 308\<close> it is
  the first for a NaN and the second for an infinity. A layer list holding such a value
  makes the conversion end with an exception of the codec, and \<open>main\<close> ends with the same
  exception, so no module text is produced.
\<close>

theorem nonfinite_value_aborts:
  assumes "\<not> is_finite x"
  shows "float_to_fixed x scale \<in> {Inl nan_error, Inl infinity_error, Inl int_too_large_error} \<and>
    (0 \<le> scale \<and> scale \<le> 308 \<longrightarrow>
       float_to_fixed x scale = Inl (if x = NaN then nan_error else infinity_error)) \<and>
    (\<forall>ws layer. layer \<in> set ws \<and> x \<in> set (layer_values layer) \<longrightarrow>
       (\<exists>e. e \<in> {nan_error, infinity_error, int_too_large_error} \<and>
            convert_weights_to_fixed ws scale = Inl e \<and>
            (\<forall>loaded h5file. load_h5_model loaded h5file = Inr ws \<longrightarrow>
               main loaded h5file scale = Inl e)))"
proof (intro conjI allI impI)
  from float_to_fixed_nonfinite_fails[OF assms, of scale]
  obtain e where e: "float_to_fixed x scale = Inl e" ..
  from float_to_fixed_error_kinds[OF e] e
  show "float_to_fixed x scale \<in> {Inl nan_error, Inl infinity_error, Inl int_too_large_error}"
    by auto
next
  assume "0 \<le> scale \<and> scale \<le> 308"
  then show "float_to_fixed x scale = Inl (if x = NaN then nan_error else infinity_error)"
    using float_to_fixed_nonfinite_small_scale[OF assms, of scale] by simp
next
  fix ws layer
  assume h: "layer \<in> set ws \<and> x \<in> set (layer_values layer)"
  from float_to_fixed_nonfinite_fails[OF assms, of scale]
  obtain e0 where e0: "float_to_fixed x scale = Inl e0" ..
  from h have xin: "x \<in> set (concat (map layer_values ws))" by auto
  have "first_error (concat (map layer_values ws)) scale \<noteq> None"
  proof
    assume "first_error (concat (map layer_values ws)) scale = None"
    then have "\<forall>y\<in>set (concat (map layer_values ws)). \<exists>r. float_to_fixed y scale = Inr r"
      by (simp only: first_error_None_iff)
    with xin obtain r where "float_to_fixed x scale = Inr r" by blast
    with e0 show False by simp
  qed
  then obtain e where e: "first_error (concat (map layer_values ws)) scale = Some e" by blast
  from first_error_Some_member[OF e] obtain y where "float_to_fixed y scale = Inl e" by blast
  from float_to_fixed_error_kinds[OF this]
  have k: "e \<in> {nan_error, infinity_error, int_too_large_error}" .
  have c: "convert_weights_to_fixed ws scale = Inl e"
    by (simp add: convert_weights_to_fixed_eq e)
  have m: "\<forall>loaded h5file. load_h5_model loaded h5file = Inr ws \<longrightarrow>
               main loaded h5file scale = Inl e"
    by (simp add: main_loaded c)
  from k c m show "\<exists>e. e \<in> {nan_error, infinity_error, int_too_large_error} \<and>
            convert_weights_to_fixed ws scale = Inl e \<and>
            (\<forall>loaded h5file. load_h5_model loaded h5file = Inr ws \<longrightarrow>
               main loaded h5file scale = Inl e)"
    by blast
qed

theorem nonfinite_value_aborts_witness:
  "\<not> is_finite NaN \<and> (0::int) \<le> 0 \<and> (0::int) \<le> 308 \<and>
   float_to_fixed NaN 0 = Inl nan_error \<and>
   nan_in_kernel \<in> set [nan_in_kernel] \<and> NaN \<in> set (layer_values nan_in_kernel) \<and>
   load_h5_model (Inr [keras_nan]) (Inr []) = Inr [nan_in_kernel] \<and>
   convert_weights_to_fixed [nan_in_kernel] 0 = Inl nan_error \<and>
   main (Inr [keras_nan]) (Inr []) 0 = Inl nan_error"
proof -
  have nf: "\<not> is_finite NaN" by simp
  have mem: "nan_in_kernel \<in> set [nan_in_kernel] \<and> NaN \<in> set (layer_values nan_in_kernel)"
    by (simp add: layer_values_nan_in_kernel)
  note t = nonfinite_value_aborts[OF nf, of 0]
  from t have a: "float_to_fixed NaN 0 = Inl nan_error" by simp
  from t have "\<forall>ws layer. layer \<in> set ws \<and> NaN \<in> set (layer_values layer) \<longrightarrow>
       (\<exists>e. e \<in> {nan_error, infinity_error, int_too_large_error} \<and>
            convert_weights_to_fixed ws 0 = Inl e \<and>
            (\<forall>loaded h5file. load_h5_model loaded h5file = Inr ws \<longrightarrow>
               main loaded h5file 0 = Inl e))"
    by (elim conjE)
  from this[rule_format, OF mem] obtain e where
    c: "convert_weights_to_fixed [nan_in_kernel] 0 = Inl e"
    and m: "\<forall>loaded h5file. load_h5_model loaded h5file = Inr [nan_in_kernel] \<longrightarrow>
               main loaded h5file 0 = Inl e"
    by blast
  from c have e: "e = nan_error" by (simp add: convert_nan_in_kernel)
  from m[rule_format, OF load_keras_nan] have "main (Inr [keras_nan]) (Inr []) 0 = Inl nan_error"
    by (simp add: e)
  with nf mem a load_keras_nan convert_nan_in_kernel show ?thesis by simp
qed

text \<open>
  C5 as stated fails: there is no one exception for values that are not finite. A NaN
  and an infinity raise different exceptions, and the exception of an infinity is the
  one a finite value raises when its product is beyond the largest float.
\<close>

theorem nonfinite_value_error_kinds_counterexample:
  "float_to_fixed NaN 0 = Inl (ValueError ''cannot convert float NaN to integer'') \<and>
   float_to_fixed PInf 0 = Inl (OverflowError ''cannot convert float infinity to integer'') \<and>
   float_to_fixed (Fin (2 ^ 1023)) 1 =
     Inl (OverflowError ''cannot convert float infinity to integer'')"
  using float_to_fixed_NaN_0 float_to_fixed_PInf_0 float_to_fixed_huge
  by (simp add: nan_error_def infinity_error_def)

section \<open>The generator\<close>

lemma declarations_loop_same:
  "list_all2 same_generator_input ws ws' \<Longrightarrow>
   declarations_loop ws move_code = declarations_loop ws' move_code"
proof (induction arbitrary: move_code rule: list_all2_induct)
  case Nil
  then show ?case by simp
next
  case (Cons a as b bs)
  then show ?case
    by (simp add: same_generator_input_def split: sum.splits prod.splits)
qed

lemma layer_weights_loop_same:
  "list_all2 same_generator_input ws ws' \<Longrightarrow>
   layer_weights_loop ws move_code = layer_weights_loop ws' move_code"
proof (induction arbitrary: move_code rule: list_all2_induct)
  case Nil
  then show ?case by simp
next
  case (Cons a as b bs)
  then show ?case
    by (simp add: same_generator_input_def Let_def split: sum.splits)
qed

lemma generate_move_code_same:
  "list_all2 same_generator_input ws ws' \<Longrightarrow>
   generate_move_code ws scale = generate_move_code ws' scale'"
proof -
  assume h: "list_all2 same_generator_input ws ws'"
  have d: "declarations_loop ws module_prologue = declarations_loop ws' module_prologue"
    using h by (rule declarations_loop_same)
  have w: "layer_weights_loop ws move_code = layer_weights_loop ws' move_code" for move_code
    using h by (rule layer_weights_loop_same)
  show ?thesis by (simp add: generate_move_code_def d w cong: sum.case_cong)
qed

lemma same_generator_input_update:
  "same_generator_input
     (l\<lparr>fx_scale := s, fx_bias := (fx_bias l)\<lparr>fx_shape := sh\<rparr>\<rparr>) l"
  by (simp add: same_generator_input_def)

lemma str_nat_digit: "n < 10 \<Longrightarrow> str_nat n = [''0123456789'' ! n]"
  by (simp add: str_nat.simps)







text \<open>
  C10. The generated text depends on a converted layer only through its name, the
  magnitudes and signs of its kernel and of its bias, and the shape of its kernel: two
  lists of converted layers that agree on these give the same result at the same
  scale, and changing the stored scale or the shape of the bias of any layer changes
  nothing.
\<close>

theorem generate_move_code_reads_only:
  "(list_all2 same_generator_input ws ws' \<longrightarrow>
      generate_move_code ws scale = generate_move_code ws' scale) \<and>
   generate_move_code
     (map (\<lambda>l. l\<lparr>fx_scale := new_scale l, fx_bias := (fx_bias l)\<lparr>fx_shape := new_shape l\<rparr>\<rparr>) ws)
     scale =
   generate_move_code ws scale"
proof (intro conjI impI)
  assume "list_all2 same_generator_input ws ws'"
  then show "generate_move_code ws scale = generate_move_code ws' scale"
    by (rule generate_move_code_same)
next
  have "list_all2 same_generator_input
     (map (\<lambda>l. l\<lparr>fx_scale := new_scale l, fx_bias := (fx_bias l)\<lparr>fx_shape := new_shape l\<rparr>\<rparr>) ws) ws"
    by (simp add: list_all2_map1 list_all2_same same_generator_input_update)
  then show "generate_move_code
     (map (\<lambda>l. l\<lparr>fx_scale := new_scale l, fx_bias := (fx_bias l)\<lparr>fx_shape := new_shape l\<rparr>\<rparr>) ws)
     scale = generate_move_code ws scale"
    by (rule generate_move_code_same)
qed

theorem generate_move_code_reads_only_witness:
  "list_all2 same_generator_input
     [fixed_dense_1]
     [fixed_dense_1\<lparr>fx_scale := 7, fx_bias := (fx_bias fixed_dense_1)\<lparr>fx_shape := [9]\<rparr>\<rparr>] \<and>
   fx_scale (fixed_dense_1\<lparr>fx_scale := 7, fx_bias := (fx_bias fixed_dense_1)\<lparr>fx_shape := [9]\<rparr>\<rparr>)
     \<noteq> fx_scale fixed_dense_1 \<and>
   generate_move_code [fixed_dense_1] 2 =
   generate_move_code
     [fixed_dense_1\<lparr>fx_scale := 7, fx_bias := (fx_bias fixed_dense_1)\<lparr>fx_shape := [9]\<rparr>\<rparr>] 2"
proof -
  have a: "list_all2 same_generator_input
     [fixed_dense_1]
     [fixed_dense_1\<lparr>fx_scale := 7, fx_bias := (fx_bias fixed_dense_1)\<lparr>fx_shape := [9]\<rparr>\<rparr>]"
    by (simp add: same_generator_input_def)
  have b: "fx_scale (fixed_dense_1\<lparr>fx_scale := 7, fx_bias := (fx_bias fixed_dense_1)\<lparr>fx_shape := [9]\<rparr>\<rparr>)
     \<noteq> fx_scale fixed_dense_1"
    by (simp add: fixed_dense_1_def)
  from generate_move_code_reads_only[of "[fixed_dense_1]"
      "[fixed_dense_1\<lparr>fx_scale := 7, fx_bias := (fx_bias fixed_dense_1)\<lparr>fx_shape := [9]\<rparr>\<rparr>]" 2] a
  have "generate_move_code [fixed_dense_1] 2 =
   generate_move_code
     [fixed_dense_1\<lparr>fx_scale := 7, fx_bias := (fx_bias fixed_dense_1)\<lparr>fx_shape := [9]\<rparr>\<rparr>] 2"
    by blast
  with a b show ?thesis by blast
qed

end
